theory Spec2Isabelle
  imports Main "HOL-Library.Word"
begin

unbundle bit_operations_syntax

section \<open>Python values: bytes, errors, indexing and slicing\<close>

text \<open>
  A \<open>bytes\<close>/\<open>bytearray\<close> object is a list of 8-bit words; reading an element gives a
  Python integer (\<open>uint\<close>). Every other number of the source is an unbounded Python
  integer, modelled as \<open>int\<close>.
\<close>

type_synonym byte = "8 word"
type_synonym bytes = "byte list"

text \<open>
  The three exception classes of \<open>core/message.py\<close> and the built-in exceptions the
  modelled code can raise.
\<close>

datatype error =
    MessageLenError
  | MessageBodyError
  | MessageCheckSumError
  | IndexError
  | ValueError
  | NotImplementedError

text \<open>Sequencing of statements that may raise: the first exception wins.\<close>

definition bind_e :: "error + 'a \<Rightarrow> ('a \<Rightarrow> error + 'b) \<Rightarrow> error + 'b" where
  "bind_e m f = (case m of Inl e \<Rightarrow> Inl e | Inr x \<Rightarrow> f x)"

text \<open>\<open>len(xs)\<close>.\<close>

definition len :: "'a list \<Rightarrow> int" where
  "len xs = int (length xs)"

text \<open>\<open>xs[i]\<close> on a byte sequence: a negative index counts from the end, an index out
  of range raises \<open>IndexError\<close>.\<close>

definition getitem :: "bytes \<Rightarrow> int \<Rightarrow> error + int" where
  "getitem xs i =
     (let n = len xs; j = (if i < 0 then n + i else i)
      in if 0 \<le> j \<and> j < n then Inr (uint (xs ! nat j)) else Inl IndexError)"

text \<open>\<open>xs[i:j]\<close>: a bound left out is \<open>None\<close>; bounds are clamped, a slice never raises.\<close>

definition slice_bound :: "int \<Rightarrow> int \<Rightarrow> int" where
  "slice_bound n i = (if i < 0 then max (n + i) 0 else min i n)"

definition py_slice :: "'a list \<Rightarrow> int option \<Rightarrow> int option \<Rightarrow> 'a list" where
  "py_slice xs i j =
     (let n = len xs;
          a = (case i of None \<Rightarrow> 0 | Some i' \<Rightarrow> slice_bound n i');
          b = (case j of None \<Rightarrow> n | Some j' \<Rightarrow> slice_bound n j')
      in take (nat (b - a)) (drop (nat a) xs))"

text \<open>\<open>bytearray([...])\<close> and \<open>bytearray.append\<close> raise \<open>ValueError\<close> on an integer
  outside \<open>range(256)\<close>.\<close>

definition fits_byte :: "int \<Rightarrow> bool" where
  "fits_byte v = (0 \<le> v \<and> v < 256)"

definition bytearray :: "int list \<Rightarrow> error + bytes" where
  "bytearray vs = (if list_all fits_byte vs then Inr (map word_of_int vs) else Inl ValueError)"

definition append_byte :: "bytes \<Rightarrow> int \<Rightarrow> error + bytes" where
  "append_byte xs v = (if fits_byte v then Inr (xs @ [word_of_int v]) else Inl ValueError)"

section \<open>core/message.py\<close>

subsection \<open>MessageType\<close>

datatype MessageType =
    mt_set
  | mt_query
  | mt_notify1
  | mt_notify2
  | mt_exception
  | mt_querySN
  | mt_exception2
  | mt_querySubtype

fun MessageType_value :: "MessageType \<Rightarrow> int" where
  "MessageType_value mt_set = 0x02"
| "MessageType_value mt_query = 0x03"
| "MessageType_value mt_notify1 = 0x04"
| "MessageType_value mt_notify2 = 0x05"
| "MessageType_value mt_exception = 0x06"
| "MessageType_value mt_querySN = 0x07"
| "MessageType_value mt_exception2 = 0x0A"
| "MessageType_value mt_querySubtype = 0xA0"

subsection \<open>MessageBase\<close>

definition HEADER_LENGTH :: int where
  "HEADER_LENGTH = 10"

text \<open>The four attributes every message carries; \<open>body_type\<close> may be \<open>None\<close>.\<close>

record message_base =
  device_type :: int
  message_type :: int
  body_type :: "int option"
  device_protocol_version :: int

text \<open>\<open>MessageBase.checksum\<close>: \<open>(~ sum(data) + 1) & 0xff\<close>.\<close>

definition checksum :: "int list \<Rightarrow> int" where
  "checksum data = (NOT (sum_list data) + 1) AND 0xff"

subsection \<open>MessageRequest and its subclasses\<close>

text \<open>
  The class of a request decides its \<open>_body\<close> property and whether \<open>body\<close> is
  overridden. \<open>C_Subclass p\<close> stands for a concrete device request class that keeps
  the inherited \<open>body\<close> and whose \<open>_body\<close> returns \<open>p\<close> (a byte sequence or \<open>None\<close>);
  \<open>C_MessageQuestCustom\<close> carries the \<open>_cmd_body\<close> attribute.
\<close>

datatype request_class =
    C_MessageRequest
  | C_MessageQuerySubtype
  | C_MessageQuestCustom bytes
  | C_MessageECBase
  | C_MessageQuery
  | C_Subclass "bytes option"

record message_request = message_base +
  cls :: request_class

definition MessageRequest ::
  "int \<Rightarrow> int \<Rightarrow> int \<Rightarrow> int option \<Rightarrow> request_class \<Rightarrow> message_request" where
  "MessageRequest dpv dt mt bt c =
     \<lparr>device_type = dt, message_type = mt, body_type = bt,
      device_protocol_version = dpv, cls = c\<rparr>"

definition MessageQuerySubtype :: "int \<Rightarrow> message_request" where
  "MessageQuerySubtype dt =
     MessageRequest 0 dt (MessageType_value mt_querySubtype) (Some 0x00) C_MessageQuerySubtype"

definition MessageQuestCustom :: "int \<Rightarrow> int \<Rightarrow> bytes \<Rightarrow> message_request" where
  "MessageQuestCustom dt cmd_type cmd_body =
     MessageRequest 0 dt cmd_type None (C_MessageQuestCustom cmd_body)"

text \<open>The \<open>_body\<close> property, per class.\<close>

definition p_body :: "message_request \<Rightarrow> error + bytes option" where
  "p_body r =
     (case cls r of
        C_MessageRequest \<Rightarrow> Inl NotImplementedError
      | C_MessageQuerySubtype \<Rightarrow> Inr (Some (replicate 18 0x00))
      | C_MessageQuestCustom cmd_body \<Rightarrow> Inr (Some [])
      | C_MessageECBase \<Rightarrow> Inl NotImplementedError
      | C_MessageQuery \<Rightarrow> Inr (Some [])
      | C_Subclass p \<Rightarrow> Inr p)"

text \<open>\<open>MessageRequest.body\<close>: the \<open>body_type\<close> byte, when there is one, then \<open>_body\<close>.\<close>

definition MessageRequest_body :: "message_request \<Rightarrow> error + bytes" where
  "MessageRequest_body r =
     bind_e (case body_type r of None \<Rightarrow> Inr [] | Some bt \<Rightarrow> append_byte [] bt)
       (\<lambda>b0. bind_e (p_body r)
          (\<lambda>p. case p of None \<Rightarrow> Inr b0 | Some pb \<Rightarrow> Inr (b0 @ pb)))"

text \<open>The \<open>body\<close> property with the overrides of \<open>MessageQuestCustom\<close> and of the EA
  \<open>MessageQuery\<close>.\<close>

definition body :: "message_request \<Rightarrow> error + bytes" where
  "body r =
     (case cls r of
        C_MessageQuestCustom cmd_body \<Rightarrow> Inr cmd_body
      | C_MessageQuery \<Rightarrow> bytearray [0xAA, 0x55, device_protocol_version r, 0x03, 0x00]
      | _ \<Rightarrow> MessageRequest_body r)"

definition header :: "message_request \<Rightarrow> error + bytes" where
  "header r =
     bind_e (body r)
       (\<lambda>b. let length_field = HEADER_LENGTH + len b
            in bytearray [0xAA, length_field, device_type r, 0x00, 0x00, 0x00, 0x00, 0x00,
                          device_protocol_version r, message_type r])"

definition serialize :: "message_request \<Rightarrow> error + bytes" where
  "serialize r =
     bind_e (header r)
       (\<lambda>h. bind_e (body r)
          (\<lambda>b. let stream = h @ b
               in append_byte stream (checksum (map uint (py_slice stream (Some 1) None)))))"

subsection \<open>MessageBody and NewProtocolMessageBody\<close>

text \<open>
  Instance attributes are dynamic in the source; \<open>body_attrs\<close> lists the attributes of a
  body object other than \<open>data\<close>, in the order they were assigned.
\<close>

datatype pyval = PInt int | PBool bool | PBytes bytes

record message_body =
  data :: bytes
  body_attrs :: "(string \<times> pyval) list"

definition MessageBody :: "bytes \<Rightarrow> message_body" where
  "MessageBody b = \<lparr>data = b, body_attrs = []\<rparr>"

text \<open>The \<open>body_type\<close> property of a body: \<open>self.data[0]\<close>.\<close>

definition MessageBody_body_type :: "message_body \<Rightarrow> error + int" where
  "MessageBody_body_type b = getitem (data b) 0"

definition read_byte :: "bytes \<Rightarrow> int \<Rightarrow> int \<Rightarrow> error + int" where
  "read_byte b byte default_value = (if len b > byte then getitem b byte else Inr default_value)"

text \<open>\<open>vars(body)\<close>: every instance attribute, \<open>data\<close> first.\<close>

definition vars :: "message_body \<Rightarrow> (string \<times> pyval) list" where
  "vars b = (''data'', PBytes (data b)) # body_attrs b"

record new_protocol_message_body = message_body +
  pack_len :: int

definition NewProtocolMessageBody :: "bytes \<Rightarrow> int \<Rightarrow> new_protocol_message_body" where
  "NewProtocolMessageBody b bt =
     \<lparr>data = b, body_attrs = [], pack_len = (if bt = 0xb5 then 4 else 5)\<rparr>"

definition pack :: "int \<Rightarrow> bytes \<Rightarrow> int \<Rightarrow> error + bytes" where
  "pack param v pl =
     (let length_field = len v
      in if pl = 4
         then bind_e (bytearray [param AND 0xFF, drop_bit 8 param, length_field])
                (\<lambda>s. Inr (s @ v))
         else bind_e (bytearray [param AND 0xFF, drop_bit 8 param, 0x00, length_field])
                (\<lambda>s. Inr (s @ v)))"

text \<open>
  The loop of \<open>parse\<close>: \<open>n\<close> iterations remain, \<open>pos\<close> is the cursor, \<open>result\<close> the
  dictionary so far. An exception leaves the loop with the dictionary as it is.
\<close>

fun parse_loop ::
  "bytes \<Rightarrow> int \<Rightarrow> nat \<Rightarrow> int \<Rightarrow> (int \<rightharpoonup> bytes) \<Rightarrow> (int \<rightharpoonup> bytes) \<times> error option" where
  "parse_loop d pl 0 pos result = (result, None)"
| "parse_loop d pl (Suc n) pos result =
     (case getitem d pos of Inl e \<Rightarrow> (result, Some e) | Inr lo \<Rightarrow>
      case getitem d (pos + 1) of Inl e \<Rightarrow> (result, Some e) | Inr hi \<Rightarrow>
        let param = lo + push_bit 8 hi;
            pos1 = (if pl = 5 then pos + 1 else pos)
        in case getitem d (pos1 + 2) of Inl e \<Rightarrow> (result, Some e) | Inr l \<Rightarrow>
             let result1 =
                   (if l > 0
                    then result(param \<mapsto> py_slice d (Some (pos1 + 3)) (Some (pos1 + 3 + l)))
                    else result)
             in parse_loop d pl n (pos1 + 3 + l) result1)"

text \<open>
  \<open>parse\<close>: the \<open>try\<close> block reads the entry count \<open>data[1]\<close> and runs the loop; the
  handler catches \<open>IndexError\<close> only, any other exception would propagate.
\<close>

definition parse :: "new_protocol_message_body \<Rightarrow> error + (int \<rightharpoonup> bytes)" where
  "parse b =
     (let (result, exc) =
            (case getitem (data b) 1 of
               Inl e \<Rightarrow> (Map.empty, Some e)
             | Inr cnt \<Rightarrow> parse_loop (data b) (pack_len b) (nat cnt) 2 Map.empty)
      in case exc of
           None \<Rightarrow> Inr result
         | Some e \<Rightarrow> (if e = IndexError then Inr result else Inl e))"

subsection \<open>MessageResponse\<close>

text \<open>
  \<open>r_header\<close> and \<open>r_body\<close> are the attributes \<open>_header\<close> and \<open>_body\<close>; \<open>attrs\<close> holds the
  attributes set on the response dynamically (by \<open>set_attr\<close> or by a subclass).
\<close>

record message_response = message_base +
  r_header :: bytes
  r_body :: message_body
  attrs :: "string \<rightharpoonup> pyval"

definition MessageResponse :: "bytes option \<Rightarrow> error + message_response" where
  "MessageResponse message =
     (case message of
        None \<Rightarrow> Inl MessageLenError
      | Some m \<Rightarrow>
          if len m < HEADER_LENGTH + 1 then Inl MessageLenError
          else
            let hdr = py_slice m None (Some HEADER_LENGTH)
            in bind_e (getitem hdr 8) (\<lambda>dpv.
               bind_e (getitem hdr (- 1)) (\<lambda>mt.
               bind_e (getitem hdr 2) (\<lambda>dt.
                 let b = MessageBody (py_slice m (Some HEADER_LENGTH) (Some (- 1)))
                 in bind_e (MessageBody_body_type b) (\<lambda>bt.
                      Inr \<lparr>device_type = dt, message_type = mt, body_type = Some bt,
                           device_protocol_version = dpv,
                           r_header = hdr, r_body = b, attrs = Map.empty\<rparr>)))))"

text \<open>The \<open>header\<close> and \<open>body\<close> properties of a response.\<close>

definition response_header :: "message_response \<Rightarrow> bytes" where
  "response_header r = r_header r"

definition response_body :: "message_response \<Rightarrow> bytes" where
  "response_body r = data (r_body r)"

definition set_body :: "message_response \<Rightarrow> message_body \<Rightarrow> message_response" where
  "set_body r b = r\<lparr>r_body := b\<rparr>"

text \<open>\<open>set_attr\<close>: every attribute of the body but \<open>data\<close> is copied onto the response.\<close>

definition set_attr :: "message_response \<Rightarrow> message_response" where
  "set_attr r =
     r\<lparr>attrs := fold (\<lambda>(key, v) m. if key \<noteq> ''data'' then m(key \<mapsto> v) else m)
                    (vars (r_body r)) (attrs r)\<rparr>"

subsection \<open>MessageSubtypeResponse\<close>

definition MessageSubtypeResponse :: "bytes option \<Rightarrow> error + message_response" where
  "MessageSubtypeResponse message =
     bind_e (MessageResponse message) (\<lambda>r.
       if message_type r = MessageType_value mt_querySubtype
       then
         (case message of
            None \<Rightarrow> Inl MessageLenError
          | Some m \<Rightarrow>
              let b = py_slice m (Some HEADER_LENGTH) (Some (- 1))
              in bind_e (if len b > 2 then getitem b 2 else Inr 0) (\<lambda>lo.
                 bind_e (if len b > 3
                         then bind_e (getitem b 3) (\<lambda>x. Inr (push_bit 8 x))
                         else Inr 0) (\<lambda>hi.
                   Inr (r\<lparr>attrs := (attrs r)(''sub_type'' \<mapsto> PInt (lo + hi))\<rparr>))))
       else Inr r)"

section \<open>devices/ea/message.py\<close>

definition MessageECBase :: "int \<Rightarrow> int \<Rightarrow> int option \<Rightarrow> message_request" where
  "MessageECBase dpv mt bt = MessageRequest dpv 0xEA mt bt C_MessageECBase"

definition MessageQuery :: "int \<Rightarrow> message_request" where
  "MessageQuery dpv =
     (MessageECBase dpv (MessageType_value mt_query) None)\<lparr>cls := C_MessageQuery\<rparr>"

definition EABody1 :: "bytes \<Rightarrow> error + message_body" where
  "EABody1 b =
     bind_e (getitem b 6) (\<lambda>b6.
     bind_e (getitem b 7) (\<lambda>b7.
     bind_e (getitem b 14) (\<lambda>progress.
     bind_e (getitem b 18) (\<lambda>b18.
     bind_e (getitem b 19) (\<lambda>b19.
     bind_e (getitem b 22) (\<lambda>b22.
     bind_e (getitem b 23) (\<lambda>b23.
     bind_e (getitem b 26) (\<lambda>b26.
     bind_e (getitem b 27) (\<lambda>b27.
       Inr \<lparr>data = b,
            body_attrs =
              [(''mode'', PInt (b6 + push_bit 8 b7)),
               (''progress'', PInt progress),
               (''cooking'', PBool (progress = 2)),
               (''keep_warm'', PBool (progress = 3)),
               (''top_temperature'', PInt b18),
               (''bottom_temperature'', PInt b19),
               (''time_remaining'', PInt (b22 * 60 + b23)),
               (''keep_warm_time'', PInt (b26 * 60 + b27))]\<rparr>)))))))))"

definition EABody2 :: "bytes \<Rightarrow> error + message_body" where
  "EABody2 b =
     bind_e (getitem b 9) (\<lambda>progress.
     bind_e (getitem b 58) (\<lambda>b58.
     bind_e (getitem b 59) (\<lambda>b59.
     bind_e (getitem b 50) (\<lambda>b50.
     bind_e (getitem b 51) (\<lambda>b51.
     bind_e (getitem b 54) (\<lambda>b54.
     bind_e (getitem b 55) (\<lambda>b55.
     bind_e (getitem b 21) (\<lambda>b21.
     bind_e (getitem b 20) (\<lambda>b20.
       Inr \<lparr>data = b,
            body_attrs =
              [(''progress'', PInt progress),
               (''cooking'', PBool (progress = 2)),
               (''keep_warm'', PBool (progress = 3)),
               (''mode'', PInt (b58 + push_bit 8 b59)),
               (''time_remaining'', PInt (b50 * 60 + b51)),
               (''keep_warm_time'', PInt (b54 * 60 + b55)),
               (''top_temperature'', PInt b21),
               (''bottom_temperature'', PInt b20)]\<rparr>)))))))))"

definition EABody3 :: "bytes \<Rightarrow> error + message_body" where
  "EABody3 b =
     bind_e (getitem b 4) (\<lambda>b4.
     bind_e (getitem b 5) (\<lambda>b5.
     bind_e (getitem b 8) (\<lambda>progress.
     bind_e (getitem b 12) (\<lambda>b12.
     bind_e (getitem b 13) (\<lambda>b13.
     bind_e (getitem b 20) (\<lambda>b20.
     bind_e (getitem b 21) (\<lambda>b21.
     bind_e (getitem b 22) (\<lambda>b22.
     bind_e (getitem b 23) (\<lambda>b23.
       Inr \<lparr>data = b,
            body_attrs =
              [(''mode'', PInt (b4 + push_bit 8 b5)),
               (''progress'', PInt progress),
               (''cooking'', PBool (progress = 2)),
               (''keep_warm'', PBool (progress = 3)),
               (''time_remaining'', PInt (b12 * 60 + b13)),
               (''top_temperature'', PInt b20),
               (''bottom_temperature'', PInt b21),
               (''keep_warm_time'', PInt (b22 * 60 + b23))]\<rparr>)))))))))"

text \<open>
  The tests of \<open>MessageEAResponse.__init__\<close>. \<open>probe b i v\<close> is \<open>body[i] == v\<close>;
  \<open>py_and\<close> and \<open>py_or\<close> evaluate their second operand only when the first does not
  decide, as Python's \<open>and\<close> and \<open>or\<close> do.
\<close>

definition probe :: "bytes \<Rightarrow> int \<Rightarrow> int \<Rightarrow> error + bool" where
  "probe b i v = bind_e (getitem b i) (\<lambda>x. Inr (x = v))"

definition py_and :: "error + bool \<Rightarrow> error + bool \<Rightarrow> error + bool" where
  "py_and p q = bind_e p (\<lambda>x. if x then q else Inr False)"

definition py_or :: "error + bool \<Rightarrow> error + bool \<Rightarrow> error + bool" where
  "py_or p q = bind_e p (\<lambda>x. if x then Inr True else q)"

definition MessageEAResponse :: "bytes option \<Rightarrow> error + message_response" where
  "MessageEAResponse message =
     bind_e (MessageResponse message) (\<lambda>r.
       let b = response_body r;
           mt = message_type r;
           is_set = Inr (mt = MessageType_value mt_set);
           is_query = Inr (mt = MessageType_value mt_query);
           is_notify1 = Inr (mt = MessageType_value mt_notify1)
       in bind_e
            (if device_protocol_version r = 0 then
               bind_e (py_and is_set (probe b 5 0x16)) (\<lambda>c1.
                 if c1 then bind_e (EABody1 b) (\<lambda>eb. Inr (set_body r eb))
                 else if mt = MessageType_value mt_query then
                   bind_e (py_and (probe b 6 0x52) (probe b 7 0xc3)) (\<lambda>c2.
                     if c2 then bind_e (EABody2 b) (\<lambda>eb. Inr (set_body r eb))
                     else bind_e (probe b 5 0x3d) (\<lambda>c3.
                       if c3 then bind_e (EABody1 b) (\<lambda>eb. Inr (set_body r eb))
                       else Inr r))
                 else
                   bind_e (py_and is_notify1 (probe b 5 0x3d)) (\<lambda>c4.
                     if c4 then bind_e (EABody1 b) (\<lambda>eb. Inr (set_body r eb))
                     else Inr r))
             else
               bind_e (py_or (py_and is_set (probe b 3 0x02))
                        (py_or (py_and is_query (probe b 3 0x03))
                               (py_and is_notify1 (probe b 3 0x04)))) (\<lambda>c1.
                 if c1 then bind_e (EABody3 b) (\<lambda>eb. Inr (set_body r eb))
                 else
                   bind_e (py_and is_notify1 (probe b 3 0x06)) (\<lambda>c2.
                     if c2 then
                       bind_e (getitem b 4) (\<lambda>b4.
                       bind_e (getitem b 5) (\<lambda>b5.
                         Inr (r\<lparr>attrs := (attrs r)(''mode'' \<mapsto> PInt (b4 + push_bit 8 b5))\<rparr>)))
                     else Inr r)))
            (\<lambda>r'. Inr (set_attr r')))"

section \<open>Notions of the specification used to state the properties\<close>

text \<open>
  The decision table of the EA decoder as the specification lists it: \<open>byte_is b i v\<close>
  says that the body has a byte at offset \<open>i\<close> and that it equals \<open>v\<close>, so a byte the
  body does not have matches nothing.
\<close>

definition byte_is :: "bytes \<Rightarrow> nat \<Rightarrow> int \<Rightarrow> bool" where
  "byte_is b i v = (i < length b \<and> uint (b ! i) = v)"

definition ea_discriminator_matches :: "int \<Rightarrow> int \<Rightarrow> bytes \<Rightarrow> bool" where
  "ea_discriminator_matches dpv mt b =
     (if dpv = 0 then
        (mt = 0x02 \<and> byte_is b 5 0x16)
        \<or> (mt = 0x03 \<and> byte_is b 6 0x52 \<and> byte_is b 7 0xC3)
        \<or> ((mt = 0x03 \<or> mt = 0x04) \<and> byte_is b 5 0x3D)
      else
        (mt = 0x02 \<and> byte_is b 3 0x02)
        \<or> (mt = 0x03 \<and> byte_is b 3 0x03)
        \<or> (mt = 0x04 \<and> byte_is b 3 0x04)
        \<or> (mt = 0x04 \<and> byte_is b 3 0x06))"

text \<open>
  The body holds every offset that \<open>MessageEAResponse.__init__\<close> reads while it decides
  (none for a message type other than set, query and notify1).
\<close>

definition ea_probes_in_range :: "int \<Rightarrow> int \<Rightarrow> bytes \<Rightarrow> bool" where
  "ea_probes_in_range dpv mt b =
     (if dpv = 0 then
        (if mt = 0x02 then 5 < length b
         else if mt = 0x03 then
           6 < length b \<and> (if uint (b ! 6) = 0x52 then 7 < length b else True)
         else if mt = 0x04 then 5 < length b
         else True)
      else
        (if mt = 0x02 \<or> mt = 0x03 \<or> mt = 0x04 then 3 < length b else True))"

text \<open>
  A well-formed New-Protocol entry: a parameter id below \<open>2^16\<close> and a non-empty value
  of at most 255 bytes.
\<close>

definition wf_entry :: "int \<times> bytes \<Rightarrow> bool" where
  "wf_entry e = (0 \<le> fst e \<and> fst e < 65536 \<and> snd e \<noteq> [] \<and> length (snd e) \<le> 255)"

text \<open>
  The caller's side of the New-Protocol round trip: a body is the marker, the entry
  count, then \<open>pack\<close> of every entry, with the pack length the decoder will choose
  for that marker.
\<close>

fun pack_all :: "int \<Rightarrow> (int \<times> bytes) list \<Rightarrow> error + bytes" where
  "pack_all pl [] = Inr []"
| "pack_all pl ((param, v) # es) =
     bind_e (pack param v pl) (\<lambda>s. bind_e (pack_all pl es) (\<lambda>rest. Inr (s @ rest)))"

definition build_body :: "int \<Rightarrow> (int \<times> bytes) list \<Rightarrow> error + bytes" where
  "build_body bt es =
     bind_e (bytearray [bt, len es]) (\<lambda>h.
     bind_e (pack_all (if bt = 0xb5 then 4 else 5) es) (\<lambda>ps. Inr (h @ ps)))"

section \<open>Basic facts about the Python primitives\<close>

lemma bind_e_simps [simp]:
  "bind_e (Inl e) f = Inl e"
  "bind_e (Inr x) f = f x"
  by (simp_all add: bind_e_def)

lemma and_255: "(x::int) AND 255 = x mod 256"
proof -
  have m: "(255::int) = mask 8" by (simp add: mask_eq_exp_minus_1)
  have "x AND mask 8 = take_bit 8 x" by (simp only: take_bit_eq_mask)
  also have "\<dots> = x mod 256" by (simp add: take_bit_eq_mod)
  finally show ?thesis by (simp only: m)
qed

lemma checksum_eq: "checksum d = (- sum_list d) mod 256"
  unfolding checksum_def by (simp add: and_255 not_int_def)

lemma uint_byte [simp]: "fits_byte v \<Longrightarrow> uint (word_of_int v :: byte) = v"
  by (simp add: fits_byte_def uint_word_of_int_eq take_bit_int_eq_self)

lemma fits_uint [simp]: "fits_byte (uint (b :: byte))"
  unfolding fits_byte_def using uint_bounded[of b] by simp

lemma fits_checksum [simp]: "fits_byte (checksum d)"
  by (simp add: checksum_eq fits_byte_def)

lemma slice_from: "0 \<le> i \<Longrightarrow> py_slice xs (Some i) None = drop (nat i) xs"
  by (auto simp: py_slice_def slice_bound_def len_def Let_def min_def)

lemma slice_upto: "0 \<le> j \<Longrightarrow> py_slice xs None (Some j) = take (nat j) xs"
  by (auto simp: py_slice_def slice_bound_def len_def Let_def min_def)

lemma slice_range:
  "0 \<le> i \<Longrightarrow> i \<le> j \<Longrightarrow>
   py_slice xs (Some i) (Some j) = take (nat (j - i)) (drop (nat i) xs)"
  by (auto simp: py_slice_def slice_bound_def len_def Let_def min_def)

lemma slice_strip_last:
  "0 \<le> i \<Longrightarrow> py_slice (xs @ [c]) (Some i) (Some (- 1)) = drop (nat i) xs"
  by (auto simp: py_slice_def slice_bound_def len_def Let_def min_def max_def)

lemma getitem_nth:
  "0 \<le> i \<Longrightarrow> nat i < length xs \<Longrightarrow> getitem xs i = Inr (uint (xs ! nat i))"
  by (auto simp: getitem_def len_def Let_def)

lemma getitem_out: "0 \<le> i \<Longrightarrow> length xs \<le> nat i \<Longrightarrow> getitem xs i = Inl IndexError"
  by (auto simp: getitem_def len_def Let_def)

lemma fits_byte_numeral [simp]:
  "fits_byte 0" "fits_byte (numeral k) = (numeral k < (256 :: int))"
  by (simp_all add: fits_byte_def)

lemma MessageResponse_ok:
  assumes "length h = 10" "b \<noteq> []"
  shows "MessageResponse (Some (h @ b @ [c])) =
     Inr \<lparr>device_type = uint (h ! 2), message_type = uint (h ! 9),
          body_type = Some (uint (hd b)), device_protocol_version = uint (h ! 8),
          r_header = h, r_body = MessageBody b, attrs = Map.empty\<rparr>"
proof -
  have s1: "py_slice (h @ b @ [c]) None (Some HEADER_LENGTH) = h"
    using assms by (simp add: slice_upto HEADER_LENGTH_def)
  have s2: "py_slice (h @ b @ [c]) (Some HEADER_LENGTH) (Some (- 1)) = b"
    using assms slice_strip_last[of 10 "h @ b" c] by (simp add: HEADER_LENGTH_def)
  have g: "getitem h 8 = Inr (uint (h ! 8))" "getitem h (- 1) = Inr (uint (h ! 9))"
    "getitem h 2 = Inr (uint (h ! 2))"
    using assms by (simp_all add: getitem_def len_def)
  have gb: "getitem b 0 = Inr (uint (hd b))"
    using assms by (cases b) (simp_all add: getitem_def len_def)
  show ?thesis
    using assms
    by (simp add: MessageResponse_def s1 s2 g gb MessageBody_body_type_def MessageBody_def
        Let_def) (simp add: len_def HEADER_LENGTH_def)
qed

section \<open>Serialization of requests\<close>

text \<open>
  The body of a request exists for every class that defines \<open>_body\<close>, as soon as
  \<open>body_type\<close> (where present) and \<open>device_protocol_version\<close> fit in a byte; the two
  classes that leave \<open>_body\<close> unimplemented cannot be serialized.
\<close>

lemma body_concrete_class:
  assumes "cls r \<noteq> C_MessageRequest" and "cls r \<noteq> C_MessageECBase"
    and "case body_type r of None \<Rightarrow> True | Some bt \<Rightarrow> fits_byte bt"
    and "fits_byte (device_protocol_version r)"
  shows "\<exists>b. body r = Inr b"
  using assms
  by (cases "cls r"; cases "body_type r")
     (auto simp: body_def MessageRequest_body_def p_body_def append_byte_def bytearray_def
       split: option.splits)

lemma body_abstract_class:
  assumes "cls r = C_MessageRequest \<or> cls r = C_MessageECBase"
    and "case body_type r of None \<Rightarrow> True | Some bt \<Rightarrow> fits_byte bt"
  shows "serialize r = Inl NotImplementedError"
  using assms
  by (cases "body_type r")
     (auto simp: serialize_def header_def body_def MessageRequest_body_def p_body_def
       append_byte_def)

text \<open>
  Claim C1. For a request whose \<open>device_type\<close>, \<open>device_protocol_version\<close> and
  \<open>message_type\<close> fit in one byte and whose body \<open>b\<close> (the value of the \<open>body\<close>
  property, which includes the \<open>body_type\<close> byte where the class prepends one) has
  \<open>10 + len b \<le> 255\<close>, \<open>serialize\<close> returns the 10-byte header, then the body, then
  one checksum byte \<open>c\<close>; byte 0 of the output is \<open>0xAA\<close>, byte 1 is \<open>10 + len b\<close>,
  and \<open>c\<close> is the checksum of \<open>output[1:-1]\<close>. The checksum is a total function
  with \<open>checksum d = (- sum d) mod 256\<close>.
\<close>

theorem serialize_frame:
  assumes dt: "fits_byte (device_type r)"
    and dpv: "fits_byte (device_protocol_version r)"
    and mt: "fits_byte (message_type r)"
    and b: "body r = Inr b"
    and n: "10 + len b \<le> 255"
  shows "\<exists>h c. header r = Inr h \<and> length h = 10
           \<and> serialize r = Inr (h @ b @ [c])
           \<and> getitem (h @ b @ [c]) 0 = Inr 0xAA
           \<and> getitem (h @ b @ [c]) 1 = Inr (10 + len b)
           \<and> uint c = checksum (map uint (py_slice (h @ b @ [c]) (Some 1) (Some (- 1))))
           \<and> checksum d = (- sum_list d) mod 256"
proof -
  define h :: bytes where
    "h = map word_of_int [0xAA, 10 + len b, device_type r, 0, 0, 0, 0, 0,
                          device_protocol_version r, message_type r]"
  define c :: byte where "c = word_of_int (checksum (map uint (drop 1 (h @ b))))"
  have fl: "fits_byte (10 + len b)" using n by (simp add: fits_byte_def len_def)
  have hd: "header r = Inr h"
    using dt dpv mt fl
    by (simp add: header_def b bytearray_def HEADER_LENGTH_def h_def fits_byte_def)
  have lh: "length h = 10" by (simp add: h_def)
  have ser: "serialize r = Inr (h @ b @ [c])"
    by (simp add: serialize_def hd b append_byte_def slice_from c_def)
  have g0: "getitem (h @ b @ [c]) 0 = Inr 0xAA"
    by (simp add: getitem_def len_def h_def)
  have h1: "(h @ b @ [c]) ! Suc 0 = word_of_int (10 + len b)"
    by (simp add: h_def nth_append)
  have u1: "uint ((h @ b @ [c]) ! Suc 0) = 10 + len b"
    by (simp only: h1 uint_byte[OF fl])
  have g1: "getitem (h @ b @ [c]) 1 = Inr (10 + len b)"
    using getitem_nth[of 1 "h @ b @ [c]"] lh u1 by simp
  have sl: "py_slice (h @ b @ [c]) (Some 1) (Some (- 1)) = drop 1 (h @ b)"
    using slice_strip_last[of 1 "h @ b" c] by simp
  have ck: "uint c = checksum (map uint (py_slice (h @ b @ [c]) (Some 1) (Some (- 1))))"
    by (simp only: sl) (simp add: c_def)
  show ?thesis using hd lh ser g0 g1 ck checksum_eq by blast
qed

theorem serialize_frame_witness:
  "fits_byte (device_type (MessageQuerySubtype 0xAC))
   \<and> fits_byte (device_protocol_version (MessageQuerySubtype 0xAC))
   \<and> fits_byte (message_type (MessageQuerySubtype 0xAC))
   \<and> body (MessageQuerySubtype 0xAC) = Inr (replicate 19 0)
   \<and> 10 + len (replicate 19 (0 :: byte)) \<le> 255
   \<and> (\<exists>h c. header (MessageQuerySubtype 0xAC) = Inr h \<and> length h = 10
          \<and> serialize (MessageQuerySubtype 0xAC) = Inr (h @ replicate 19 0 @ [c])
          \<and> getitem (h @ replicate 19 0 @ [c]) 0 = Inr 0xAA
          \<and> getitem (h @ replicate 19 0 @ [c]) 1 = Inr 29
          \<and> uint c = checksum (map uint (py_slice (h @ replicate 19 0 @ [c])
                                           (Some 1) (Some (- 1)))))"
proof -
  let ?r = "MessageQuerySubtype 0xAC"
  have f: "fits_byte (device_type ?r)" "fits_byte (device_protocol_version ?r)"
    "fits_byte (message_type ?r)"
    by (simp_all add: MessageQuerySubtype_def MessageRequest_def fits_byte_def)
  have b: "body ?r = Inr (replicate 19 0)"
    by (simp add: body_def MessageRequest_body_def p_body_def MessageQuerySubtype_def
        MessageRequest_def append_byte_def fits_byte_def numeral_eq_Suc)
  have n: "10 + len (replicate 19 (0 :: byte)) \<le> 255" by (simp add: len_def)
  have l: "10 + len (replicate 19 (0 :: byte)) = 29" by (simp add: len_def)
  from serialize_frame[OF f b n, of "[]"] have
    "\<exists>h c. header ?r = Inr h \<and> length h = 10
          \<and> serialize ?r = Inr (h @ replicate 19 0 @ [c])
          \<and> getitem (h @ replicate 19 0 @ [c]) 0 = Inr 0xAA
          \<and> getitem (h @ replicate 19 0 @ [c]) 1 = Inr 29
          \<and> uint c = checksum (map uint (py_slice (h @ replicate 19 0 @ [c])
                                           (Some 1) (Some (- 1))))"
    unfolding l by blast
  with f b n show ?thesis by blast
qed

text \<open>
  Claim C9. A \<open>MessageQuestCustom\<close> built from a device type, a command type (both
  bytes) and a \<open>cmd_body\<close> with \<open>10 + len cmd_body \<le> 255\<close> serializes to the 10-byte
  header, then \<open>cmd_body\<close> verbatim (its \<open>body\<close> is \<open>cmd_body\<close> itself: no
  \<open>body_type\<close> byte, no assembly), then one checksum byte; the header's length field
  is \<open>10 + len cmd_body\<close> and the last byte is the checksum of \<open>header[1:]\<close> followed
  by \<open>cmd_body\<close>.
\<close>

theorem custom_serialize:
  fixes dt ct :: byte
  assumes n: "10 + len cmd_body \<le> 255"
  shows "\<exists>h c. header (MessageQuestCustom (uint dt) (uint ct) cmd_body) = Inr h
           \<and> h = [0xAA, word_of_int (10 + len cmd_body), dt, 0, 0, 0, 0, 0, 0, ct]
           \<and> uint (h ! 1) = 10 + len cmd_body
           \<and> body (MessageQuestCustom (uint dt) (uint ct) cmd_body) = Inr cmd_body
           \<and> serialize (MessageQuestCustom (uint dt) (uint ct) cmd_body)
               = Inr (h @ cmd_body @ [c])
           \<and> uint c = checksum (map uint (py_slice h (Some 1) None @ cmd_body))"
proof -
  let ?r = "MessageQuestCustom (uint dt) (uint ct) cmd_body"
  define h :: bytes where
    "h = [0xAA, word_of_int (10 + len cmd_body), dt, 0, 0, 0, 0, 0, 0, ct]"
  define c :: byte where
    "c = word_of_int (checksum (map uint (py_slice h (Some 1) None @ cmd_body)))"
  have fl: "fits_byte (10 + len cmd_body)" using n by (simp add: fits_byte_def len_def)
  have b: "body ?r = Inr cmd_body"
    by (simp add: body_def MessageQuestCustom_def MessageRequest_def)
  have hd: "header ?r = Inr h"
    unfolding header_def b using fl
    by (simp add: bytearray_def HEADER_LENGTH_def h_def
        MessageQuestCustom_def MessageRequest_def)
  have u: "uint (h ! 1) = 10 + len cmd_body"
    unfolding h_def by (simp only: nth_Cons_Suc One_nat_def nth_Cons_0 uint_byte[OF fl])
  have ser: "serialize ?r = Inr (h @ cmd_body @ [c])"
    by (simp add: serialize_def hd b append_byte_def slice_from c_def h_def)
  have ck: "uint c = checksum (map uint (py_slice h (Some 1) None @ cmd_body))"
    by (simp add: c_def)
  show ?thesis using hd u b ser ck h_def by blast
qed

theorem custom_serialize_witness:
  "10 + len [1, 2, 3 :: byte] \<le> 255
   \<and> (\<exists>h c. header (MessageQuestCustom 0xAC 0x03 [1, 2, 3]) = Inr h
          \<and> h = [0xAA, 13, 0xAC, 0, 0, 0, 0, 0, 0, 0x03]
          \<and> uint (h ! 1) = 13
          \<and> body (MessageQuestCustom 0xAC 0x03 [1, 2, 3]) = Inr [1, 2, 3]
          \<and> serialize (MessageQuestCustom 0xAC 0x03 [1, 2, 3]) = Inr (h @ [1, 2, 3] @ [c])
          \<and> uint c = checksum (map uint (py_slice h (Some 1) None @ [1, 2, 3])))"
  using custom_serialize[where dt = "0xAC" and ct = "0x03" and cmd_body = "[1, 2, 3]"]
  by (simp add: len_def)

section \<open>Round trip through the response parser\<close>

text \<open>
  Claim C2. A request that keeps the inherited body assembly, built with a one-byte
  \<open>body_type\<close> \<open>B\<close> and a payload \<open>P\<close> (the value of its \<open>_body\<close>) such that
  \<open>11 + len P \<le> 255\<close>, and whose header fields are bytes, serializes to a frame that
  \<open>MessageResponse\<close> parses: the parsed \<open>body_type\<close> is \<open>B\<close>, the parsed body is \<open>B\<close>
  followed by \<open>P\<close> (so \<open>body[1:] = P\<close>), and the parsed \<open>device_type\<close>,
  \<open>device_protocol_version\<close> and \<open>message_type\<close> are the request's.
\<close>

theorem roundtrip:
  fixes dpv dt mt B :: byte and P :: bytes
  assumes n: "11 + len P \<le> 255"
  shows "\<exists>out resp.
           serialize (MessageRequest (uint dpv) (uint dt) (uint mt) (Some (uint B))
                        (C_Subclass (Some P))) = Inr out
           \<and> MessageResponse (Some out) = Inr resp
           \<and> body_type resp = Some (uint B)
           \<and> response_body resp = B # P
           \<and> py_slice (response_body resp) (Some 1) None = P
           \<and> device_type resp = uint dt
           \<and> device_protocol_version resp = uint dpv
           \<and> message_type resp = uint mt"
proof -
  let ?r = "MessageRequest (uint dpv) (uint dt) (uint mt) (Some (uint B)) (C_Subclass (Some P))"
  have b: "body ?r = Inr (B # P)"
    by (simp add: body_def MessageRequest_body_def MessageRequest_def p_body_def append_byte_def)
  have f: "fits_byte (device_type ?r)" "fits_byte (device_protocol_version ?r)"
    "fits_byte (message_type ?r)"
    by (simp_all add: MessageRequest_def)
  have n': "10 + len (B # P) \<le> 255" using n by (simp add: len_def)
  have fl: "fits_byte (10 + len (B # P))" using n' by (simp add: fits_byte_def len_def)
  define h :: bytes where
    "h = [0xAA, word_of_int (10 + len (B # P)), dt, 0, 0, 0, 0, 0, dpv, mt]"
  have hd: "header ?r = Inr h"
    unfolding header_def b using fl
    by (simp add: bytearray_def HEADER_LENGTH_def h_def MessageRequest_def)
  obtain c where ser: "serialize ?r = Inr (h @ (B # P) @ [c])"
    by (simp add: serialize_def hd b append_byte_def)
  have lh: "length h = 10" by (simp add: h_def)
  define resp where
    "resp = \<lparr>device_type = uint (h ! 2), message_type = uint (h ! 9),
          body_type = Some (uint (hd (B # P))), device_protocol_version = uint (h ! 8),
          r_header = h, r_body = MessageBody (B # P), attrs = Map.empty\<rparr>"
  have p: "MessageResponse (Some (h @ (B # P) @ [c])) = Inr resp"
    unfolding resp_def by (rule MessageResponse_ok[OF lh]) simp
  have q: "body_type resp = Some (uint B)" "response_body resp = B # P"
    "py_slice (response_body resp) (Some 1) None = P"
    "device_type resp = uint dt" "device_protocol_version resp = uint dpv"
    "message_type resp = uint mt"
    by (simp_all add: resp_def response_body_def MessageBody_def slice_from h_def)
  show ?thesis using ser p q by blast
qed

theorem roundtrip_witness:
  "11 + len [1, 2, 3 :: byte] \<le> 255
   \<and> (\<exists>out resp.
          serialize (MessageRequest 0 0xAC 0x03 (Some 0x41) (C_Subclass (Some [1, 2, 3])))
            = Inr out
          \<and> MessageResponse (Some out) = Inr resp
          \<and> body_type resp = Some 0x41
          \<and> response_body resp = [0x41, 1, 2, 3]
          \<and> py_slice (response_body resp) (Some 1) None = [1, 2, 3]
          \<and> device_type resp = 0xAC
          \<and> device_protocol_version resp = 0
          \<and> message_type resp = 0x03)"
  using roundtrip[where P = "[1, 2, 3]" and dpv = 0 and dt = "0xAC" and mt = "0x03"
      and B = "0x41"]
  by (simp add: len_def)

section \<open>The response parser\<close>

text \<open>
  A missing input and an input of fewer than 11 bytes raise \<open>MessageLenError\<close>; an
  input of 12 bytes or more is parsed, whatever its last byte is (the checksum is
  not verified); an input of exactly 11 bytes passes the length check and then
  raises \<open>IndexError\<close> when \<open>body_type\<close> reads byte 0 of the empty body.
\<close>

lemma MessageResponse_None: "MessageResponse None = Inl MessageLenError"
  by (simp add: MessageResponse_def)

lemma MessageResponse_short:
  "length m < 11 \<Longrightarrow> MessageResponse (Some m) = Inl MessageLenError"
  by (simp add: MessageResponse_def HEADER_LENGTH_def len_def)

lemma MessageResponse_len11:
  assumes "length m = 11"
  shows "MessageResponse (Some m) = Inl IndexError"
proof -
  have s1: "length (py_slice m None (Some HEADER_LENGTH)) = 10"
    using assms by (simp add: slice_upto HEADER_LENGTH_def)
  have s2: "py_slice m (Some HEADER_LENGTH) (Some (- 1)) = []"
    using assms by (simp add: py_slice_def slice_bound_def HEADER_LENGTH_def len_def)
  have g: "\<exists>x. getitem (py_slice m None (Some HEADER_LENGTH)) 8 = Inr x"
     "\<exists>x. getitem (py_slice m None (Some HEADER_LENGTH)) (- 1) = Inr x"
     "\<exists>x. getitem (py_slice m None (Some HEADER_LENGTH)) 2 = Inr x"
    using s1 by (simp_all add: getitem_def len_def)
  then obtain a b c where
    "getitem (py_slice m None (Some HEADER_LENGTH)) 8 = Inr a"
    "getitem (py_slice m None (Some HEADER_LENGTH)) (- 1) = Inr b"
    "getitem (py_slice m None (Some HEADER_LENGTH)) 2 = Inr c" by blast
  then show ?thesis
    using assms
    by (simp add: MessageResponse_def Let_def s2 MessageBody_body_type_def MessageBody_def
        getitem_def) (simp add: len_def HEADER_LENGTH_def)
qed

lemma frame_split:
  assumes "12 \<le> length m"
  shows "\<exists>h b c. m = h @ b @ [c] \<and> length h = 10 \<and> b \<noteq> []"
proof -
  have ne: "m \<noteq> []" using assms by auto
  have "m = butlast m @ [last m]" using ne by simp
  then have "m = (take 10 (butlast m) @ drop 10 (butlast m)) @ [last m]"
    by (simp only: append_take_drop_id)
  then have "m = take 10 (butlast m) @ drop 10 (butlast m) @ [last m]"
    by (simp only: append_assoc)
  moreover have "length (take 10 (butlast m)) = 10" using assms by simp
  moreover have "drop 10 (butlast m) \<noteq> []" using assms by simp
  ultimately show ?thesis by blast
qed

lemma MessageResponse_long:
  assumes "12 \<le> length m"
  shows "\<exists>r. MessageResponse (Some m) = Inr r
           \<and> response_body r = py_slice m (Some 10) (Some (- 1))
           \<and> MessageResponse (Some (butlast m @ [c])) = Inr r"
proof -
  from frame_split[OF assms] obtain h b c0 where
    m: "m = h @ b @ [c0]" and h: "length h = 10" and b: "b \<noteq> []" by blast
  have bl: "butlast m @ [c] = h @ b @ [c]" using m by (simp add: butlast_append)
  have sl: "py_slice m (Some 10) (Some (- 1)) = b"
    using slice_strip_last[of 10 "h @ b" c0] h by (simp add: m)
  show ?thesis
    unfolding bl sl unfolding m
    by (simp add: MessageResponse_ok[OF h b] response_body_def MessageBody_def)
qed

text \<open>
  Claim C3. The claim says that an input of exactly 11 bytes (empty body) is parsed,
  with an empty raw body. On the code, the 11-byte frame with header
  \<open>AA 0A AC 00 00 00 00 00 00 03\<close> and checksum \<open>47\<close> raises \<open>IndexError\<close>.
\<close>

theorem parse_empty_body_frame:
  "MessageResponse (Some [0xAA, 0x0A, 0xAC, 0, 0, 0, 0, 0, 0, 0x03, 0x47]) = Inl IndexError"
  by (rule MessageResponse_len11) simp

lemma MessageResponse_Some_len:
  "MessageResponse m = Inr r \<Longrightarrow> \<exists>x. m = Some x \<and> 12 \<le> length x"
proof (cases m)
  case None
  assume "MessageResponse m = Inr r"
  then show ?thesis using None by (simp add: MessageResponse_None)
next
  case (Some x)
  assume a: "MessageResponse m = Inr r"
  have "\<not> length x < 11" using a Some MessageResponse_short[of x] by auto
  moreover have "length x \<noteq> 11" using a Some MessageResponse_len11[of x] by auto
  ultimately show ?thesis using Some by auto
qed

section \<open>Subtype extraction\<close>

text \<open>
  Claim C7, as amended. For every frame that \<open>MessageSubtypeResponse\<close> parses and whose
  \<open>message_type\<close> is querySubtype (\<open>0xA0\<close>), \<open>sub_type\<close> is the little-endian value of
  body offsets 2 and 3, each missing byte counting as 0. So a body that begins
  \<open>[_, _, 0x07, 0x00]\<close> gives 7, and a body shorter than 3 bytes gives 0. (A 3-byte
  body gives its byte 2, which need not be 0.)
\<close>

theorem subtype_extraction:
  assumes ok: "MessageSubtypeResponse (Some m) = Inr r"
    and mt: "message_type r = MessageType_value mt_querySubtype"
    and b: "b = py_slice m (Some 10) (Some (- 1))"
  shows "attrs r ''sub_type'' =
           Some (PInt ((if 2 < length b then uint (b ! 2) else 0)
                       + (if 3 < length b then push_bit 8 (uint (b ! 3)) else 0)))
         \<and> (length b < 3 \<longrightarrow> attrs r ''sub_type'' = Some (PInt 0))
         \<and> (3 < length b \<and> b ! 2 = 0x07 \<and> b ! 3 = 0x00
              \<longrightarrow> attrs r ''sub_type'' = Some (PInt 7))"
proof -
  obtain r0 where r0: "MessageResponse (Some m) = Inr r0"
    using ok by (cases "MessageResponse (Some m)") (simp_all add: MessageSubtypeResponse_def)
  have g2: "2 < length b \<Longrightarrow> getitem b 2 = Inr (uint (b ! 2))"
    and g3: "3 < length b \<Longrightarrow> getitem b 3 = Inr (uint (b ! 3))"
    by (simp_all add: getitem_def len_def)
  have eq: "message_type r0 = MessageType_value mt_querySubtype"
    using ok mt r0 by (auto simp: MessageSubtypeResponse_def split: if_splits)
  have "r = r0\<lparr>attrs := (attrs r0)(''sub_type'' \<mapsto>
           PInt ((if 2 < length b then uint (b ! 2) else 0)
                 + (if 3 < length b then push_bit 8 (uint (b ! 3)) else 0)))\<rparr>"
    using ok r0 eq g2 g3
    by (auto simp: MessageSubtypeResponse_def HEADER_LENGTH_def b[symmetric] len_def)
  then have main: "attrs r ''sub_type'' =
           Some (PInt ((if 2 < length b then uint (b ! 2) else 0)
                       + (if 3 < length b then push_bit 8 (uint (b ! 3)) else 0)))"
    by simp
  show ?thesis unfolding main by auto
qed

theorem subtype_extraction_witness:
  "MessageSubtypeResponse
     (Some [0xAA, 0x0E, 0xAC, 0, 0, 0, 0, 0, 0, 0xA0, 0, 0, 7, 0, 0x9F])
     = Inr \<lparr>device_type = 0xAC, message_type = 0xA0, body_type = Some 0,
            device_protocol_version = 0,
            r_header = [0xAA, 0x0E, 0xAC, 0, 0, 0, 0, 0, 0, 0xA0],
            r_body = MessageBody [0, 0, 7, 0],
            attrs = [''sub_type'' \<mapsto> PInt 7]\<rparr>
   \<and> [0, 0, 7, 0 :: byte]
       = py_slice [0xAA, 0x0E, 0xAC, 0, 0, 0, 0, 0, 0, 0xA0, 0, 0, 7, 0, 0x9F]
           (Some 10) (Some (- 1))
   \<and> [''sub_type'' \<mapsto> PInt 7] ''sub_type'' = Some (PInt 7)"
proof -
  let ?m = "[0xAA, 0x0E, 0xAC, 0, 0, 0, 0, 0, 0, 0xA0, 0, 0, 7, 0, 0x9F] :: bytes"
  let ?r = "\<lparr>device_type = 0xAC, message_type = 0xA0, body_type = Some 0,
            device_protocol_version = 0,
            r_header = [0xAA, 0x0E, 0xAC, 0, 0, 0, 0, 0, 0, 0xA0],
            r_body = MessageBody [0, 0, 7, 0],
            attrs = [''sub_type'' \<mapsto> PInt 7]\<rparr>"
  have ok: "MessageSubtypeResponse (Some ?m) = Inr ?r"
    by (simp add: MessageSubtypeResponse_def MessageResponse_def py_slice_def slice_bound_def
        len_def HEADER_LENGTH_def getitem_def MessageBody_def MessageBody_body_type_def Let_def)
  have mt: "message_type ?r = MessageType_value mt_querySubtype" by simp
  have b: "[0, 0, 7, 0 :: byte] = py_slice ?m (Some 10) (Some (- 1))"
    by (simp add: py_slice_def slice_bound_def len_def)
  from subtype_extraction[OF ok mt b] ok b show ?thesis by simp
qed

text \<open>
  The claim as stated fails on a 3-byte body: the frame below has
  \<open>message_type = 0xA0\<close> and body \<open>[0, 0, 7]\<close>, shorter than 4 bytes, and its
  \<open>sub_type\<close> is 7, not 0.
\<close>

theorem subtype_short_body_counterexample:
  "len (py_slice [0xAA, 0x0D, 0xAC, 0, 0, 0, 0, 0, 0, 0xA0, 0, 0, 7, 0xA0 :: byte]
          (Some 10) (Some (- 1))) < 4
   \<and> \<not> isl (MessageSubtypeResponse
               (Some [0xAA, 0x0D, 0xAC, 0, 0, 0, 0, 0, 0, 0xA0, 0, 0, 7, 0xA0]))
   \<and> message_type (projr (MessageSubtypeResponse
               (Some [0xAA, 0x0D, 0xAC, 0, 0, 0, 0, 0, 0, 0xA0, 0, 0, 7, 0xA0]))) = 0xA0
   \<and> attrs (projr (MessageSubtypeResponse
               (Some [0xAA, 0x0D, 0xAC, 0, 0, 0, 0, 0, 0, 0xA0, 0, 0, 7, 0xA0])))
        ''sub_type'' = Some (PInt 7)"
  by (simp add: MessageSubtypeResponse_def MessageResponse_def py_slice_def slice_bound_def
      len_def HEADER_LENGTH_def getitem_def MessageBody_def MessageBody_body_type_def Let_def)

section \<open>The EA decoder\<close>

lemma bind_e_eq_Inr: "bind_e m f = Inr y \<longleftrightarrow> (\<exists>x. m = Inr x \<and> f x = Inr y)"
  by (cases m) simp_all

lemma getitem_numeral:
  "numeral k < length b \<Longrightarrow> getitem b (numeral k) = Inr (uint (b ! numeral k))"
  by (simp add: getitem_def len_def)

lemma getitem_numeral_out:
  "length b \<le> numeral k \<Longrightarrow> getitem b (numeral k) = Inl IndexError"
  by (simp add: getitem_def len_def)

lemma fold_set_attr:
  "fold (\<lambda>(key, v) m. if key \<noteq> ''data'' then m(key \<mapsto> v) else m) xs m0 k =
     (if k = ''data'' then m0 k
      else case map_of (rev xs) k of Some v \<Rightarrow> Some v | None \<Rightarrow> m0 k)"
proof (induction xs arbitrary: m0)
  case Nil
  then show ?case by simp
next
  case (Cons x xs)
  obtain key v where x: "x = (key, v)" by (cases x)
  show ?case
    by (simp add: x Cons.IH map_add_def split: option.splits)
qed

lemma attrs_set_attr:
  "attrs (set_attr r) k =
     (if k = ''data'' then attrs r k
      else case map_of (rev (body_attrs (r_body r))) k of
             Some v \<Rightarrow> Some v | None \<Rightarrow> attrs r k)"
  by (simp add: set_attr_def vars_def fold_set_attr map_add_def split: option.splits)

lemma set_attr_plain: "body_attrs (r_body r) = [] \<Longrightarrow> set_attr r = r"
  by (simp add: set_attr_def vars_def)

lemma MessageResponse_fresh:
  assumes "MessageResponse msg = Inr r0"
  shows "attrs r0 = Map.empty \<and> body_attrs (r_body r0) = [] \<and> response_body r0 \<noteq> []"
proof -
  from MessageResponse_Some_len[OF assms] obtain m where m: "msg = Some m" "12 \<le> length m"
    by blast
  from frame_split[OF m(2)] obtain h b c where
    s: "m = h @ b @ [c]" "length h = 10" "b \<noteq> []" by blast
  show ?thesis
    using assms s(3) unfolding m s MessageResponse_ok[OF s(2,3)]
    by (auto simp: MessageBody_def response_body_def)
qed

lemma probe_in: "numeral k < length b \<Longrightarrow> probe b (numeral k) v = Inr (uint (b ! numeral k) = v)"
  by (simp add: probe_def getitem_numeral)

lemma probe_out: "length b \<le> numeral k \<Longrightarrow> probe b (numeral k) v = Inl IndexError"
  by (simp add: probe_def getitem_numeral_out)

lemma py_and_simps [simp]:
  "py_and (Inr True) q = q"
  "py_and (Inr False) q = Inr False"
  "py_and (Inl e) q = Inl e"
  by (simp_all add: py_and_def)

lemma py_or_simps [simp]:
  "py_or (Inr True) q = Inr True"
  "py_or (Inr False) q = q"
  "py_or (Inl e) q = Inl e"
  by (simp_all add: py_or_def)

lemma EABody1_ok:
  "27 < length b \<Longrightarrow> EABody1 b =
     Inr \<lparr>data = b,
          body_attrs =
            [(''mode'', PInt (uint (b ! 6) + push_bit 8 (uint (b ! 7)))),
             (''progress'', PInt (uint (b ! 14))),
             (''cooking'', PBool (uint (b ! 14) = 2)),
             (''keep_warm'', PBool (uint (b ! 14) = 3)),
             (''top_temperature'', PInt (uint (b ! 18))),
             (''bottom_temperature'', PInt (uint (b ! 19))),
             (''time_remaining'', PInt (uint (b ! 22) * 60 + uint (b ! 23))),
             (''keep_warm_time'', PInt (uint (b ! 26) * 60 + uint (b ! 27)))]\<rparr>"
  by (simp add: EABody1_def getitem_numeral)

lemma EABody3_ok:
  "23 < length b \<Longrightarrow> EABody3 b =
     Inr \<lparr>data = b,
          body_attrs =
            [(''mode'', PInt (uint (b ! 4) + push_bit 8 (uint (b ! 5)))),
             (''progress'', PInt (uint (b ! 8))),
             (''cooking'', PBool (uint (b ! 8) = 2)),
             (''keep_warm'', PBool (uint (b ! 8) = 3)),
             (''time_remaining'', PInt (uint (b ! 12) * 60 + uint (b ! 13))),
             (''top_temperature'', PInt (uint (b ! 20))),
             (''bottom_temperature'', PInt (uint (b ! 21))),
             (''keep_warm_time'', PInt (uint (b ! 22) * 60 + uint (b ! 23)))]\<rparr>"
  by (simp add: EABody3_def getitem_numeral)

lemma EABody_flags:
  assumes "EABody1 b = Inr eb \<or> EABody2 b = Inr eb \<or> EABody3 b = Inr eb"
  shows "\<exists>p. map_of (body_attrs eb) ''progress'' = Some (PInt p)
           \<and> map_of (body_attrs eb) ''cooking'' = Some (PBool (p = 2))
           \<and> map_of (body_attrs eb) ''keep_warm'' = Some (PBool (p = 3))
           \<and> map_of (rev (body_attrs eb)) ''progress'' = Some (PInt p)
           \<and> map_of (rev (body_attrs eb)) ''cooking'' = Some (PBool (p = 2))
           \<and> map_of (rev (body_attrs eb)) ''keep_warm'' = Some (PBool (p = 3))"
  using assms
  by (elim disjE) (auto simp: EABody1_def EABody2_def EABody3_def bind_e_eq_Inr)

lemma MessageEAResponse_cases:
  assumes "MessageEAResponse msg = Inr r"
  shows "\<exists>r0. MessageResponse msg = Inr r0 \<and>
           ((\<exists>eb. (EABody1 (response_body r0) = Inr eb \<or> EABody2 (response_body r0) = Inr eb
                    \<or> EABody3 (response_body r0) = Inr eb)
                  \<and> r = set_attr (set_body r0 eb))
            \<or> r = r0
            \<or> (\<exists>v. r = r0\<lparr>attrs := [''mode'' \<mapsto> PInt v]\<rparr>))"
proof -
  obtain r0 where p: "MessageResponse msg = Inr r0"
    using assms by (cases "MessageResponse msg") (simp_all add: MessageEAResponse_def)
  note fr = MessageResponse_fresh[OF p]
  have sa: "set_attr r0 = r0" using fr by (simp add: set_attr_plain)
  have sm: "set_attr (r0\<lparr>attrs := m\<rparr>) = r0\<lparr>attrs := m\<rparr>" for m
    using fr by (simp add: set_attr_def vars_def)
  show ?thesis
    using assms fr
    apply (simp add: MessageEAResponse_def p Let_def bind_e_eq_Inr split: if_splits)
    apply (auto simp: sa sm)
    done
qed

lemmas frame_eval =
  MessageResponse_def py_slice_def slice_bound_def len_def HEADER_LENGTH_def getitem_def
  MessageBody_def MessageBody_body_type_def Let_def response_body_def

text \<open>
  Claim C4, as amended. Let a frame parse as a generic response with body \<open>b\<close>.
  If \<open>device_protocol_version = 0\<close>, \<open>message_type\<close> is set (\<open>0x02\<close>), \<open>b[5] = 0x16\<close>
  and \<open>b\<close> has at least 28 bytes, \<open>MessageEAResponse\<close> succeeds and exposes the
  \<open>EABody1\<close> fields on the response: \<open>mode = b[6] + (b[7] << 8)\<close>,
  \<open>progress = b[14]\<close>, \<open>cooking\<close> iff \<open>progress = 2\<close>, \<open>keep_warm\<close> iff
  \<open>progress = 3\<close>, \<open>top_temperature = b[18]\<close>, \<open>bottom_temperature = b[19]\<close>,
  \<open>time_remaining = b[22] * 60 + b[23]\<close>, \<open>keep_warm_time = b[26] * 60 + b[27]\<close>.
  If \<open>device_protocol_version = 1\<close>, \<open>message_type\<close> is query (\<open>0x03\<close>), \<open>b[3] = 0x03\<close>
  and \<open>b\<close> has at least 24 bytes, it exposes the \<open>EABody3\<close> fields:
  \<open>mode = b[4] + (b[5] << 8)\<close>, \<open>progress = b[8]\<close>, \<open>cooking\<close> and \<open>keep_warm\<close> as
  before, \<open>time_remaining = b[12] * 60 + b[13]\<close>, \<open>top_temperature = b[20]\<close>,
  \<open>bottom_temperature = b[21]\<close>, \<open>keep_warm_time = b[22] * 60 + b[23]\<close>.
\<close>

theorem ea_variant_selection:
  assumes p: "MessageResponse msg = Inr r0" and b: "b = response_body r0"
  shows "(device_protocol_version r0 = 0 \<and> message_type r0 = MessageType_value mt_set
            \<and> 27 < length b \<and> uint (b ! 5) = 0x16 \<longrightarrow>
          (\<exists>r. MessageEAResponse msg = Inr r
             \<and> attrs r ''mode'' = Some (PInt (uint (b ! 6) + push_bit 8 (uint (b ! 7))))
             \<and> attrs r ''progress'' = Some (PInt (uint (b ! 14)))
             \<and> attrs r ''cooking'' = Some (PBool (uint (b ! 14) = 2))
             \<and> attrs r ''keep_warm'' = Some (PBool (uint (b ! 14) = 3))
             \<and> attrs r ''top_temperature'' = Some (PInt (uint (b ! 18)))
             \<and> attrs r ''bottom_temperature'' = Some (PInt (uint (b ! 19)))
             \<and> attrs r ''time_remaining'' = Some (PInt (uint (b ! 22) * 60 + uint (b ! 23)))
             \<and> attrs r ''keep_warm_time'' = Some (PInt (uint (b ! 26) * 60 + uint (b ! 27)))))
       \<and> (device_protocol_version r0 = 1 \<and> message_type r0 = MessageType_value mt_query
            \<and> 23 < length b \<and> uint (b ! 3) = 0x03 \<longrightarrow>
          (\<exists>r. MessageEAResponse msg = Inr r
             \<and> attrs r ''mode'' = Some (PInt (uint (b ! 4) + push_bit 8 (uint (b ! 5))))
             \<and> attrs r ''progress'' = Some (PInt (uint (b ! 8)))
             \<and> attrs r ''cooking'' = Some (PBool (uint (b ! 8) = 2))
             \<and> attrs r ''keep_warm'' = Some (PBool (uint (b ! 8) = 3))
             \<and> attrs r ''time_remaining'' = Some (PInt (uint (b ! 12) * 60 + uint (b ! 13)))
             \<and> attrs r ''top_temperature'' = Some (PInt (uint (b ! 20)))
             \<and> attrs r ''bottom_temperature'' = Some (PInt (uint (b ! 21)))
             \<and> attrs r ''keep_warm_time'' = Some (PInt (uint (b ! 22) * 60 + uint (b ! 23)))))"
proof (intro conjI impI)
  assume a: "device_protocol_version r0 = 0 \<and> message_type r0 = MessageType_value mt_set
            \<and> 27 < length b \<and> uint (b ! 5) = 0x16"
  then obtain eb where eb: "EABody1 b = Inr eb" and
    f: "body_attrs eb =
            [(''mode'', PInt (uint (b ! 6) + push_bit 8 (uint (b ! 7)))),
             (''progress'', PInt (uint (b ! 14))),
             (''cooking'', PBool (uint (b ! 14) = 2)),
             (''keep_warm'', PBool (uint (b ! 14) = 3)),
             (''top_temperature'', PInt (uint (b ! 18))),
             (''bottom_temperature'', PInt (uint (b ! 19))),
             (''time_remaining'', PInt (uint (b ! 22) * 60 + uint (b ! 23))),
             (''keep_warm_time'', PInt (uint (b ! 26) * 60 + uint (b ! 27)))]"
    using EABody1_ok[of b] by simp
  have "MessageEAResponse msg = Inr (set_attr (set_body r0 eb))"
    using a by (simp add: MessageEAResponse_def p Let_def b[symmetric] probe_in eb)
  then show "\<exists>r. MessageEAResponse msg = Inr r
             \<and> attrs r ''mode'' = Some (PInt (uint (b ! 6) + push_bit 8 (uint (b ! 7))))
             \<and> attrs r ''progress'' = Some (PInt (uint (b ! 14)))
             \<and> attrs r ''cooking'' = Some (PBool (uint (b ! 14) = 2))
             \<and> attrs r ''keep_warm'' = Some (PBool (uint (b ! 14) = 3))
             \<and> attrs r ''top_temperature'' = Some (PInt (uint (b ! 18)))
             \<and> attrs r ''bottom_temperature'' = Some (PInt (uint (b ! 19)))
             \<and> attrs r ''time_remaining'' = Some (PInt (uint (b ! 22) * 60 + uint (b ! 23)))
             \<and> attrs r ''keep_warm_time'' = Some (PInt (uint (b ! 26) * 60 + uint (b ! 27)))"
    by (simp add: attrs_set_attr set_body_def f)
next
  assume a: "device_protocol_version r0 = 1 \<and> message_type r0 = MessageType_value mt_query
            \<and> 23 < length b \<and> uint (b ! 3) = 0x03"
  then obtain eb where eb: "EABody3 b = Inr eb" and
    f: "body_attrs eb =
            [(''mode'', PInt (uint (b ! 4) + push_bit 8 (uint (b ! 5)))),
             (''progress'', PInt (uint (b ! 8))),
             (''cooking'', PBool (uint (b ! 8) = 2)),
             (''keep_warm'', PBool (uint (b ! 8) = 3)),
             (''time_remaining'', PInt (uint (b ! 12) * 60 + uint (b ! 13))),
             (''top_temperature'', PInt (uint (b ! 20))),
             (''bottom_temperature'', PInt (uint (b ! 21))),
             (''keep_warm_time'', PInt (uint (b ! 22) * 60 + uint (b ! 23)))]"
    using EABody3_ok[of b] by simp
  have "MessageEAResponse msg = Inr (set_attr (set_body r0 eb))"
    using a by (simp add: MessageEAResponse_def p Let_def b[symmetric] probe_in eb)
  then show "\<exists>r. MessageEAResponse msg = Inr r
             \<and> attrs r ''mode'' = Some (PInt (uint (b ! 4) + push_bit 8 (uint (b ! 5))))
             \<and> attrs r ''progress'' = Some (PInt (uint (b ! 8)))
             \<and> attrs r ''cooking'' = Some (PBool (uint (b ! 8) = 2))
             \<and> attrs r ''keep_warm'' = Some (PBool (uint (b ! 8) = 3))
             \<and> attrs r ''time_remaining'' = Some (PInt (uint (b ! 12) * 60 + uint (b ! 13)))
             \<and> attrs r ''top_temperature'' = Some (PInt (uint (b ! 20)))
             \<and> attrs r ''bottom_temperature'' = Some (PInt (uint (b ! 21)))
             \<and> attrs r ''keep_warm_time'' = Some (PInt (uint (b ! 22) * 60 + uint (b ! 23)))"
    by (simp add: attrs_set_attr set_body_def f)
qed

theorem ea_variant_selection_witness:
  "MessageResponse
     (Some [0xAA, 0x26, 0xEA, 0, 0, 0, 0, 0, 0, 0x02,
            0, 0, 0, 0, 0, 0x16, 1, 2, 0, 0, 0, 0, 0, 0, 2, 0, 0, 0, 100, 90, 0, 0, 1, 30,
            0, 0, 0, 5, 0xF1])
     = Inr \<lparr>device_type = 0xEA, message_type = 0x02, body_type = Some 0,
            device_protocol_version = 0,
            r_header = [0xAA, 0x26, 0xEA, 0, 0, 0, 0, 0, 0, 0x02],
            r_body = MessageBody
              [0, 0, 0, 0, 0, 0x16, 1, 2, 0, 0, 0, 0, 0, 0, 2, 0, 0, 0, 100, 90, 0, 0, 1, 30,
               0, 0, 0, 5],
            attrs = Map.empty\<rparr>
   \<and> (\<exists>r. MessageEAResponse
             (Some [0xAA, 0x26, 0xEA, 0, 0, 0, 0, 0, 0, 0x02,
                    0, 0, 0, 0, 0, 0x16, 1, 2, 0, 0, 0, 0, 0, 0, 2, 0, 0, 0, 100, 90, 0, 0,
                    1, 30, 0, 0, 0, 5, 0xF1]) = Inr r
          \<and> attrs r ''mode'' = Some (PInt 513)
          \<and> attrs r ''progress'' = Some (PInt 2)
          \<and> attrs r ''cooking'' = Some (PBool True)
          \<and> attrs r ''keep_warm'' = Some (PBool False)
          \<and> attrs r ''top_temperature'' = Some (PInt 100)
          \<and> attrs r ''bottom_temperature'' = Some (PInt 90)
          \<and> attrs r ''time_remaining'' = Some (PInt 90)
          \<and> attrs r ''keep_warm_time'' = Some (PInt 5))
   \<and> MessageResponse
     (Some [0xAA, 0x22, 0xEA, 0, 0, 0, 0, 0, 1, 0x03,
            0, 0, 0, 3, 1, 2, 0, 0, 3, 0, 0, 0, 1, 30, 0, 0, 0, 0, 0, 0, 100, 90, 0, 5, 0x05])
     = Inr \<lparr>device_type = 0xEA, message_type = 0x03, body_type = Some 0,
            device_protocol_version = 1,
            r_header = [0xAA, 0x22, 0xEA, 0, 0, 0, 0, 0, 1, 0x03],
            r_body = MessageBody
              [0, 0, 0, 3, 1, 2, 0, 0, 3, 0, 0, 0, 1, 30, 0, 0, 0, 0, 0, 0, 100, 90, 0, 5],
            attrs = Map.empty\<rparr>
   \<and> (\<exists>r. MessageEAResponse
             (Some [0xAA, 0x22, 0xEA, 0, 0, 0, 0, 0, 1, 0x03,
                    0, 0, 0, 3, 1, 2, 0, 0, 3, 0, 0, 0, 1, 30, 0, 0, 0, 0, 0, 0, 100, 90,
                    0, 5, 0x05]) = Inr r
          \<and> attrs r ''mode'' = Some (PInt 513)
          \<and> attrs r ''progress'' = Some (PInt 3)
          \<and> attrs r ''cooking'' = Some (PBool False)
          \<and> attrs r ''keep_warm'' = Some (PBool True)
          \<and> attrs r ''time_remaining'' = Some (PInt 90)
          \<and> attrs r ''top_temperature'' = Some (PInt 100)
          \<and> attrs r ''bottom_temperature'' = Some (PInt 90)
          \<and> attrs r ''keep_warm_time'' = Some (PInt 5))"
proof -
  let ?m1 = "[0xAA, 0x26, 0xEA, 0, 0, 0, 0, 0, 0, 0x02,
            0, 0, 0, 0, 0, 0x16, 1, 2, 0, 0, 0, 0, 0, 0, 2, 0, 0, 0, 100, 90, 0, 0, 1, 30,
            0, 0, 0, 5, 0xF1] :: bytes"
  let ?b1 = "[0, 0, 0, 0, 0, 0x16, 1, 2, 0, 0, 0, 0, 0, 0, 2, 0, 0, 0, 100, 90, 0, 0, 1, 30,
               0, 0, 0, 5] :: bytes"
  let ?r1 = "\<lparr>device_type = 0xEA, message_type = 0x02, body_type = Some 0,
            device_protocol_version = 0,
            r_header = [0xAA, 0x26, 0xEA, 0, 0, 0, 0, 0, 0, 0x02],
            r_body = MessageBody ?b1, attrs = Map.empty\<rparr>"
  let ?m2 = "[0xAA, 0x22, 0xEA, 0, 0, 0, 0, 0, 1, 0x03,
            0, 0, 0, 3, 1, 2, 0, 0, 3, 0, 0, 0, 1, 30, 0, 0, 0, 0, 0, 0, 100, 90, 0, 5, 0x05]
            :: bytes"
  let ?b2 = "[0, 0, 0, 3, 1, 2, 0, 0, 3, 0, 0, 0, 1, 30, 0, 0, 0, 0, 0, 0, 100, 90, 0, 5]
            :: bytes"
  let ?r2 = "\<lparr>device_type = 0xEA, message_type = 0x03, body_type = Some 0,
            device_protocol_version = 1,
            r_header = [0xAA, 0x22, 0xEA, 0, 0, 0, 0, 0, 1, 0x03],
            r_body = MessageBody ?b2, attrs = Map.empty\<rparr>"
  have p1: "MessageResponse (Some ?m1) = Inr ?r1" by (simp add: frame_eval)
  have b1: "?b1 = response_body ?r1" by (simp add: response_body_def MessageBody_def)
  have p2: "MessageResponse (Some ?m2) = Inr ?r2" by (simp add: frame_eval)
  have b2: "?b2 = response_body ?r2" by (simp add: response_body_def MessageBody_def)
  from ea_variant_selection[OF p1 b1] ea_variant_selection[OF p2 b2] p1 p2
  show ?thesis by simp
qed

text \<open>
  Without the bound on the body length the claim fails: the frame below parses as a
  generic response with \<open>device_protocol_version = 0\<close>, \<open>message_type\<close> set and
  \<open>body[5] = 0x16\<close>, but its body has 6 bytes only, and \<open>MessageEAResponse\<close> raises
  \<open>IndexError\<close> when \<open>EABody1\<close> reads \<open>body[6]\<close>.
\<close>

theorem ea_variant_selection_counterexample:
  "\<not> isl (MessageResponse
             (Some [0xAA, 0x10, 0xEA, 0, 0, 0, 0, 0, 0, 0x02, 0, 0, 0, 0, 0, 0x16, 0xEE]))
   \<and> device_protocol_version (projr (MessageResponse
             (Some [0xAA, 0x10, 0xEA, 0, 0, 0, 0, 0, 0, 0x02, 0, 0, 0, 0, 0, 0x16, 0xEE]))) = 0
   \<and> message_type (projr (MessageResponse
             (Some [0xAA, 0x10, 0xEA, 0, 0, 0, 0, 0, 0, 0x02, 0, 0, 0, 0, 0, 0x16, 0xEE])))
        = MessageType_value mt_set
   \<and> getitem (response_body (projr (MessageResponse
             (Some [0xAA, 0x10, 0xEA, 0, 0, 0, 0, 0, 0, 0x02, 0, 0, 0, 0, 0, 0x16, 0xEE])))) 5
        = Inr 0x16
   \<and> MessageEAResponse
        (Some [0xAA, 0x10, 0xEA, 0, 0, 0, 0, 0, 0, 0x02, 0, 0, 0, 0, 0, 0x16, 0xEE])
        = Inl IndexError"
  by (simp add: frame_eval MessageEAResponse_def probe_def EABody1_def)

text \<open>
  Claim C8, as amended. Let a frame parse as a generic response, let its body hold
  every offset the decoder reads while it decides (\<open>ea_probes_in_range\<close>), and let none
  of the discriminators of the decision table match. Then \<open>MessageEAResponse\<close>
  succeeds, returns the generic response unchanged, and exposes no decoded field (the
  attribute map is empty).
\<close>

theorem ea_unmatched_frame:
  assumes p: "MessageResponse msg = Inr r0"
    and rng: "ea_probes_in_range (device_protocol_version r0) (message_type r0)
                (response_body r0)"
    and nm: "\<not> ea_discriminator_matches (device_protocol_version r0) (message_type r0)
                (response_body r0)"
  shows "MessageEAResponse msg = Inr r0 \<and> attrs r0 = Map.empty"
proof -
  note fr = MessageResponse_fresh[OF p]
  have sa: "set_attr r0 = r0" using fr by (simp add: set_attr_plain)
  have "MessageEAResponse msg = Inr (set_attr r0)"
    using rng nm
    by (auto simp: MessageEAResponse_def p Let_def ea_probes_in_range_def
        ea_discriminator_matches_def byte_is_def probe_in split: if_splits)
  then show ?thesis using sa fr by simp
qed

theorem ea_unmatched_frame_witness:
  "MessageResponse
     (Some [0xAA, 0x10, 0xEA, 0, 0, 0, 0, 0, 0, 0x02, 1, 2, 3, 4, 5, 6, 0xEF])
     = Inr \<lparr>device_type = 0xEA, message_type = 0x02, body_type = Some 1,
            device_protocol_version = 0,
            r_header = [0xAA, 0x10, 0xEA, 0, 0, 0, 0, 0, 0, 0x02],
            r_body = MessageBody [1, 2, 3, 4, 5, 6], attrs = Map.empty\<rparr>
   \<and> ea_probes_in_range 0 0x02 [1, 2, 3, 4, 5, 6]
   \<and> \<not> ea_discriminator_matches 0 0x02 [1, 2, 3, 4, 5, 6]
   \<and> MessageEAResponse
        (Some [0xAA, 0x10, 0xEA, 0, 0, 0, 0, 0, 0, 0x02, 1, 2, 3, 4, 5, 6, 0xEF])
     = Inr \<lparr>device_type = 0xEA, message_type = 0x02, body_type = Some 1,
            device_protocol_version = 0,
            r_header = [0xAA, 0x10, 0xEA, 0, 0, 0, 0, 0, 0, 0x02],
            r_body = MessageBody [1, 2, 3, 4, 5, 6], attrs = Map.empty\<rparr>"
proof -
  let ?m = "[0xAA, 0x10, 0xEA, 0, 0, 0, 0, 0, 0, 0x02, 1, 2, 3, 4, 5, 6, 0xEF] :: bytes"
  let ?r0 = "\<lparr>device_type = 0xEA, message_type = 0x02, body_type = Some 1,
            device_protocol_version = 0,
            r_header = [0xAA, 0x10, 0xEA, 0, 0, 0, 0, 0, 0, 0x02],
            r_body = MessageBody [1, 2, 3, 4, 5, 6], attrs = Map.empty\<rparr>"
  have p: "MessageResponse (Some ?m) = Inr ?r0" by (simp add: frame_eval)
  have rng: "ea_probes_in_range (device_protocol_version ?r0) (message_type ?r0)
               (response_body ?r0)"
    by (simp add: ea_probes_in_range_def response_body_def MessageBody_def)
  have nm: "\<not> ea_discriminator_matches (device_protocol_version ?r0) (message_type ?r0)
               (response_body ?r0)"
    by (simp add: ea_discriminator_matches_def byte_is_def response_body_def MessageBody_def)
  from ea_unmatched_frame[OF p rng nm] p rng nm show ?thesis
    by (simp add: response_body_def MessageBody_def)
qed

text \<open>
  The claim as stated includes bodies too short for the probed offsets. There it fails:
  the frame below parses as a generic response with \<open>device_protocol_version = 0\<close>,
  \<open>message_type\<close> set and the one-byte body \<open>[0]\<close>; no discriminator matches (the body
  has no byte 5), and \<open>MessageEAResponse\<close> raises \<open>IndexError\<close> on \<open>body[5]\<close>.
\<close>

theorem ea_unmatched_frame_counterexample:
  "\<not> isl (MessageResponse (Some [0xAA, 0x0B, 0xEA, 0, 0, 0, 0, 0, 0, 0x02, 0x00, 0x09]))
   \<and> \<not> ea_discriminator_matches
         (device_protocol_version (projr (MessageResponse
            (Some [0xAA, 0x0B, 0xEA, 0, 0, 0, 0, 0, 0, 0x02, 0x00, 0x09]))))
         (message_type (projr (MessageResponse
            (Some [0xAA, 0x0B, 0xEA, 0, 0, 0, 0, 0, 0, 0x02, 0x00, 0x09]))))
         (response_body (projr (MessageResponse
            (Some [0xAA, 0x0B, 0xEA, 0, 0, 0, 0, 0, 0, 0x02, 0x00, 0x09]))))
   \<and> MessageEAResponse (Some [0xAA, 0x0B, 0xEA, 0, 0, 0, 0, 0, 0, 0x02, 0x00, 0x09])
        = Inl IndexError"
  by (simp add: frame_eval MessageEAResponse_def probe_def ea_discriminator_matches_def
      byte_is_def)

text \<open>
  Claim C10. Every \<open>EABody1\<close>, \<open>EABody2\<close> or \<open>EABody3\<close> that a body is long enough to
  construct has a \<open>progress\<close> \<open>p\<close>, \<open>cooking = (p = 2)\<close> and \<open>keep_warm = (p = 3)\<close>, so
  \<open>cooking\<close> and \<open>keep_warm\<close> are never both true. The same holds on every response that
  \<open>MessageEAResponse\<close> returns, after the fields were merged: where \<open>cooking\<close> or
  \<open>keep_warm\<close> is set, both are, as \<open>progress = 2\<close> and \<open>progress = 3\<close> of the merged
  \<open>progress\<close>, and they are never both true.
\<close>

theorem ea_cooking_keep_warm:
  "(EABody1 b = Inr eb \<or> EABody2 b = Inr eb \<or> EABody3 b = Inr eb \<longrightarrow>
      (\<exists>p. map_of (body_attrs eb) ''progress'' = Some (PInt p)
           \<and> map_of (body_attrs eb) ''cooking'' = Some (PBool (p = 2))
           \<and> map_of (body_attrs eb) ''keep_warm'' = Some (PBool (p = 3)))
      \<and> \<not> (map_of (body_attrs eb) ''cooking'' = Some (PBool True)
             \<and> map_of (body_attrs eb) ''keep_warm'' = Some (PBool True)))
   \<and> (MessageEAResponse msg = Inr r \<longrightarrow>
        (attrs r ''cooking'' \<noteq> None \<or> attrs r ''keep_warm'' \<noteq> None \<longrightarrow>
           (\<exists>p. attrs r ''progress'' = Some (PInt p)
                \<and> attrs r ''cooking'' = Some (PBool (p = 2))
                \<and> attrs r ''keep_warm'' = Some (PBool (p = 3))))
        \<and> \<not> (attrs r ''cooking'' = Some (PBool True)
               \<and> attrs r ''keep_warm'' = Some (PBool True)))"
proof (intro conjI impI)
  assume a: "EABody1 b = Inr eb \<or> EABody2 b = Inr eb \<or> EABody3 b = Inr eb"
  from EABody_flags[OF a]
  show "\<exists>p. map_of (body_attrs eb) ''progress'' = Some (PInt p)
           \<and> map_of (body_attrs eb) ''cooking'' = Some (PBool (p = 2))
           \<and> map_of (body_attrs eb) ''keep_warm'' = Some (PBool (p = 3))" by blast
  from EABody_flags[OF a]
  show "\<not> (map_of (body_attrs eb) ''cooking'' = Some (PBool True)
             \<and> map_of (body_attrs eb) ''keep_warm'' = Some (PBool True))" by auto
next
  assume a: "MessageEAResponse msg = Inr r"
  from MessageEAResponse_cases[OF a] obtain r0 where
    p: "MessageResponse msg = Inr r0" and
    c: "(\<exists>eb. (EABody1 (response_body r0) = Inr eb \<or> EABody2 (response_body r0) = Inr eb
                    \<or> EABody3 (response_body r0) = Inr eb)
                  \<and> r = set_attr (set_body r0 eb))
            \<or> r = r0
            \<or> (\<exists>v. r = r0\<lparr>attrs := [''mode'' \<mapsto> PInt v]\<rparr>)" by blast
  note fr = MessageResponse_fresh[OF p]
  have main: "(attrs r ''cooking'' = None \<and> attrs r ''keep_warm'' = None)
     \<or> (\<exists>p. attrs r ''progress'' = Some (PInt p)
                \<and> attrs r ''cooking'' = Some (PBool (p = 2))
                \<and> attrs r ''keep_warm'' = Some (PBool (p = 3)))"
  proof -
    from c consider
      (decoded) eb where
        "EABody1 (response_body r0) = Inr eb \<or> EABody2 (response_body r0) = Inr eb
           \<or> EABody3 (response_body r0) = Inr eb"
        "r = set_attr (set_body r0 eb)"
      | (plain) "r = r0"
      | (mode_only) v where "r = r0\<lparr>attrs := [''mode'' \<mapsto> PInt v]\<rparr>"
      by blast
    then show ?thesis
    proof cases
      case decoded
      from EABody_flags[OF decoded(1)] show ?thesis
        by (auto simp: decoded(2) attrs_set_attr set_body_def)
    next
      case plain
      then show ?thesis using fr by simp
    next
      case mode_only
      then show ?thesis by simp
    qed
  qed
  show "attrs r ''cooking'' \<noteq> None \<or> attrs r ''keep_warm'' \<noteq> None \<Longrightarrow>
           (\<exists>p. attrs r ''progress'' = Some (PInt p)
                \<and> attrs r ''cooking'' = Some (PBool (p = 2))
                \<and> attrs r ''keep_warm'' = Some (PBool (p = 3)))"
    using main by auto
  show "\<not> (attrs r ''cooking'' = Some (PBool True)
               \<and> attrs r ''keep_warm'' = Some (PBool True))"
    using main by auto
qed

theorem ea_cooking_keep_warm_witness:
  "EABody3 [0, 0, 0, 3, 1, 2, 0, 0, 3, 0, 0, 0, 1, 30, 0, 0, 0, 0, 0, 0, 100, 90, 0, 5]
     = Inr \<lparr>data = [0, 0, 0, 3, 1, 2, 0, 0, 3, 0, 0, 0, 1, 30, 0, 0, 0, 0, 0, 0, 100, 90, 0, 5],
            body_attrs =
              [(''mode'', PInt 513), (''progress'', PInt 3), (''cooking'', PBool False),
               (''keep_warm'', PBool True), (''time_remaining'', PInt 90),
               (''top_temperature'', PInt 100), (''bottom_temperature'', PInt 90),
               (''keep_warm_time'', PInt 5)]\<rparr>
   \<and> \<not> isl (MessageEAResponse
        (Some [0xAA, 0x22, 0xEA, 0, 0, 0, 0, 0, 1, 0x03,
               0, 0, 0, 3, 1, 2, 0, 0, 3, 0, 0, 0, 1, 30, 0, 0, 0, 0, 0, 0, 100, 90, 0, 5,
               0x05]))
   \<and> attrs (projr (MessageEAResponse
        (Some [0xAA, 0x22, 0xEA, 0, 0, 0, 0, 0, 1, 0x03,
               0, 0, 0, 3, 1, 2, 0, 0, 3, 0, 0, 0, 1, 30, 0, 0, 0, 0, 0, 0, 100, 90, 0, 5,
               0x05]))) ''keep_warm'' = Some (PBool True)
   \<and> attrs (projr (MessageEAResponse
        (Some [0xAA, 0x22, 0xEA, 0, 0, 0, 0, 0, 1, 0x03,
               0, 0, 0, 3, 1, 2, 0, 0, 3, 0, 0, 0, 1, 30, 0, 0, 0, 0, 0, 0, 100, 90, 0, 5,
               0x05]))) ''cooking'' = Some (PBool False)"
proof -
  let ?m = "[0xAA, 0x22, 0xEA, 0, 0, 0, 0, 0, 1, 0x03,
            0, 0, 0, 3, 1, 2, 0, 0, 3, 0, 0, 0, 1, 30, 0, 0, 0, 0, 0, 0, 100, 90, 0, 5, 0x05]
            :: bytes"
  let ?b = "[0, 0, 0, 3, 1, 2, 0, 0, 3, 0, 0, 0, 1, 30, 0, 0, 0, 0, 0, 0, 100, 90, 0, 5]
            :: bytes"
  let ?eb = "\<lparr>data = ?b,
            body_attrs =
              [(''mode'', PInt 513), (''progress'', PInt 3), (''cooking'', PBool False),
               (''keep_warm'', PBool True), (''time_remaining'', PInt 90),
               (''top_temperature'', PInt 100), (''bottom_temperature'', PInt 90),
               (''keep_warm_time'', PInt 5)]\<rparr>"
  have e: "EABody3 ?b = Inr ?eb" by (simp add: EABody3_ok)
  obtain r where r: "MessageEAResponse (Some ?m) = Inr r"
    and kw: "attrs r ''keep_warm'' = Some (PBool True)"
  proof -
    have p: "MessageResponse (Some ?m) =
       Inr \<lparr>device_type = 0xEA, message_type = 0x03, body_type = Some 0,
            device_protocol_version = 1,
            r_header = [0xAA, 0x22, 0xEA, 0, 0, 0, 0, 0, 1, 0x03],
            r_body = MessageBody ?b, attrs = Map.empty\<rparr>" by (simp add: frame_eval)
    have "MessageEAResponse (Some ?m) =
       Inr (set_attr (set_body \<lparr>device_type = 0xEA, message_type = 0x03, body_type = Some 0,
            device_protocol_version = 1,
            r_header = [0xAA, 0x22, 0xEA, 0, 0, 0, 0, 0, 1, 0x03],
            r_body = MessageBody ?b, attrs = Map.empty\<rparr> ?eb))"
      by (simp add: MessageEAResponse_def p Let_def response_body_def MessageBody_def
          probe_in e)
    then show ?thesis using that by (simp add: attrs_set_attr set_body_def)
  qed
  from ea_cooking_keep_warm[of ?b ?eb "Some ?m" r] e r kw show ?thesis by auto
qed

section \<open>The New-Protocol body codec\<close>

lemma getitem_append_right:
  "0 \<le> i \<Longrightarrow> getitem (pre @ xs) (len pre + i) = getitem xs i"
  by (auto simp: getitem_def len_def Let_def nth_append nat_add_distrib)

lemma slice_append_right:
  "0 \<le> i \<Longrightarrow> i \<le> j \<Longrightarrow>
   py_slice (pre @ xs) (Some (len pre + i)) (Some (len pre + j)) = py_slice xs (Some i) (Some j)"
  by (auto simp: py_slice_def slice_bound_def len_def Let_def min_def nat_add_distrib)

lemma param_bytes:
  assumes "0 \<le> p" "p < 65536"
  shows "fits_byte (p AND 0xFF)" "fits_byte (drop_bit 8 p)"
    "(p AND 0xFF) + push_bit 8 (drop_bit 8 p) = p"
proof -
  show "fits_byte (p AND 0xFF)" by (simp add: and_255 fits_byte_def)
  have "0 \<le> p div 256" "p div 256 < 256" using assms by auto
  then show "fits_byte (drop_bit 8 p)" by (simp add: fits_byte_def drop_bit_eq_div)
  show "(p AND 0xFF) + push_bit 8 (drop_bit 8 p) = p"
    by (simp add: and_255 drop_bit_eq_div push_bit_eq_mult)
qed

lemma wf_entry_fits:
  assumes "wf_entry (p, v)"
  shows "fits_byte (p AND 0xFF)" "fits_byte (drop_bit 8 p)" "fits_byte (len v)"
    "(p AND 0xFF) + push_bit 8 (drop_bit 8 p) = p" "v \<noteq> []"
  using assms param_bytes[of p]
  by (simp_all add: wf_entry_def) (simp_all add: fits_byte_def len_def)

lemma pack_4:
  assumes "wf_entry (p, v)"
  shows "\<exists>a b c. pack p v 4 = Inr (a # b # c # v)
           \<and> uint a + push_bit 8 (uint b) = p \<and> uint c = len v"
proof -
  note f = wf_entry_fits[OF assms]
  have "pack p v 4 = Inr (word_of_int (p AND 0xFF) # word_of_int (drop_bit 8 p)
                           # word_of_int (len v) # v)"
    using f by (simp add: pack_def bytearray_def Let_def)
  moreover have
    "uint (word_of_int (p AND 0xFF) :: byte)
       + push_bit 8 (uint (word_of_int (drop_bit 8 p) :: byte)) = p"
    "uint (word_of_int (len v) :: byte) = len v"
    by (simp_all only: uint_byte f)
  ultimately show ?thesis by blast
qed

lemma pack_5:
  assumes "wf_entry (p, v)"
  shows "\<exists>a b c. pack p v 5 = Inr (a # b # 0 # c # v)
           \<and> uint a + push_bit 8 (uint b) = p \<and> uint c = len v"
proof -
  note f = wf_entry_fits[OF assms]
  have "pack p v 5 = Inr (word_of_int (p AND 0xFF) # word_of_int (drop_bit 8 p) # 0
                           # word_of_int (len v) # v)"
    using f by (simp add: pack_def bytearray_def Let_def)
  moreover have
    "uint (word_of_int (p AND 0xFF) :: byte)
       + push_bit 8 (uint (word_of_int (drop_bit 8 p) :: byte)) = p"
    "uint (word_of_int (len v) :: byte) = len v"
    by (simp_all only: uint_byte f)
  ultimately show ?thesis by blast
qed

lemma loop_step4:
  assumes d: "d = pre @ a # b # c # v @ post"
    and u: "uint a + push_bit 8 (uint b) = p" "uint c = len v" and v: "v \<noteq> []"
  shows "parse_loop d 4 (Suc n) (len pre) res
         = parse_loop d 4 n (len pre + 3 + len v) (res(p \<mapsto> v))"
proof -
  let ?x = "a # b # c # v @ post"
  have lv: "0 < len v" using v by (simp add: len_def)
  have g0: "getitem d (len pre) = Inr (uint a)"
    unfolding d using getitem_append_right[of 0 pre ?x]
    by (simp add: getitem_def[of ?x] len_def)
  have g1: "getitem d (len pre + 1) = Inr (uint b)"
    unfolding d using getitem_append_right[of 1 pre ?x]
    by (simp add: getitem_def[of ?x] len_def)
  have g2: "getitem d (len pre + 2) = Inr (len v)"
    unfolding d using getitem_append_right[of 2 pre ?x] u(2)
    by (simp add: getitem_def[of ?x] len_def)
  have sl: "py_slice d (Some (len pre + 3)) (Some (len pre + 3 + len v)) = v"
    unfolding d using slice_append_right[of 3 "3 + len v" pre ?x] lv
    by (simp add: slice_range len_def add.assoc)
  show ?thesis
    by (subst parse_loop.simps(2)) (simp add: g0 g1 g2 sl lv u(1))
qed

lemma loop_step5:
  assumes d: "d = pre @ a # b # z # c # v @ post"
    and u: "uint a + push_bit 8 (uint b) = p" "uint c = len v" and v: "v \<noteq> []"
  shows "parse_loop d 5 (Suc n) (len pre) res
         = parse_loop d 5 n (len pre + 4 + len v) (res(p \<mapsto> v))"
proof -
  let ?x = "a # b # z # c # v @ post"
  have lv: "0 < len v" using v by (simp add: len_def)
  have g0: "getitem d (len pre) = Inr (uint a)"
    unfolding d using getitem_append_right[of 0 pre ?x]
    by (simp add: getitem_def[of ?x] len_def)
  have g1: "getitem d (len pre + 1) = Inr (uint b)"
    unfolding d using getitem_append_right[of 1 pre ?x]
    by (simp add: getitem_def[of ?x] len_def)
  have g2: "getitem d (len pre + 3) = Inr (len v)"
    unfolding d using getitem_append_right[of 3 pre ?x] u(2)
    by (simp add: getitem_def[of ?x] len_def)
  have sl: "py_slice d (Some (len pre + 4)) (Some (len pre + 4 + len v)) = v"
    unfolding d using slice_append_right[of 4 "4 + len v" pre ?x] lv
    by (simp add: slice_range len_def add.assoc)
  have e: "len pre + 1 + 2 = len pre + 3" "len pre + 1 + 3 = len pre + 4" by simp_all
  have c: "((5::int) = 5) = True" by simp
  show ?thesis
    by (subst parse_loop.simps(2))
       (simp only: g0 g1 sum.case Let_def u(1) c if_True e g2 lv sl)
qed

lemma pack_all_Cons:
  "pack_all pl ((p, v) # es) = Inr ps \<longleftrightarrow>
     (\<exists>s rest. pack p v pl = Inr s \<and> pack_all pl es = Inr rest \<and> ps = s @ rest)"
  by (auto simp: bind_e_eq_Inr)

lemma loop_entries:
  assumes "list_all wf_entry es" and "pack_all pl es = Inr ps" and "pl = 4 \<or> pl = 5"
  shows "parse_loop (pre @ ps @ post) pl (length es + k) (len pre) res
         = parse_loop (pre @ ps @ post) pl k (len pre + len ps) (res ++ map_of (rev es))"
  using assms
proof (induction es arbitrary: pre ps res)
  case Nil
  then show ?case by (simp add: len_def)
next
  case (Cons e es)
  obtain p v where e: "e = (p, v)" by (cases e)
  from Cons.prems(1) have wf: "wf_entry (p, v)" and wfs: "list_all wf_entry es"
    by (simp_all add: e)
  from Cons.prems(2) obtain s rest where
    s: "pack p v pl = Inr s" and rest: "pack_all pl es = Inr rest" and ps: "ps = s @ rest"
    unfolding e pack_all_Cons by blast
  note f = wf_entry_fits[OF wf]
  have step: "parse_loop (pre @ ps @ post) pl (Suc (length es + k)) (len pre) res
        = parse_loop (pre @ ps @ post) pl (length es + k) (len pre + len s) (res(p \<mapsto> v))"
    using Cons.prems(3)
  proof
    assume p4: "pl = 4"
    from pack_4[OF wf] s obtain a b c where
      h: "s = a # b # c # v" and u: "uint a + push_bit 8 (uint b) = p" "uint c = len v"
      unfolding p4 by auto
    have d: "pre @ ps @ post = pre @ a # b # c # v @ (rest @ post)" by (simp add: ps h)
    have l: "len pre + len s = len pre + 3 + len v" by (simp add: h len_def)
    show ?thesis unfolding p4 l by (rule loop_step4[OF d u f(5)])
  next
    assume p5: "pl = 5"
    from pack_5[OF wf] s obtain a b c where
      h: "s = a # b # 0 # c # v" and u: "uint a + push_bit 8 (uint b) = p" "uint c = len v"
      unfolding p5 by auto
    have d: "pre @ ps @ post = pre @ a # b # 0 # c # v @ (rest @ post)" by (simp add: ps h)
    have l: "len pre + len s = len pre + 4 + len v" by (simp add: h len_def)
    show ?thesis unfolding p5 l by (rule loop_step5[OF d u f(5)])
  qed
  let ?D = "pre @ ps @ post"
  have D: "?D = (pre @ s) @ rest @ post" by (simp add: ps)
  have l: "len (pre @ s) = len pre + len s" "len pre + len s + len rest = len pre + len ps"
    by (simp_all add: len_def ps)
  have m: "res(p \<mapsto> v) ++ map_of (rev es) = res ++ map_of (rev (e # es))"
    by (simp add: e map_add_def fun_eq_iff split: option.splits)
  have "parse_loop ?D pl (length (e # es) + k) (len pre) res
        = parse_loop ?D pl (Suc (length es + k)) (len pre) res" by simp
  also have "\<dots> = parse_loop ?D pl (length es + k) (len pre + len s) (res(p \<mapsto> v))"
    by (rule step)
  also have "\<dots> = parse_loop ?D pl k (len pre + len ps) (res(p \<mapsto> v) ++ map_of (rev es))"
    using Cons.IH[OF wfs rest Cons.prems(3), where pre = "pre @ s" and res = "res(p \<mapsto> v)"]
    unfolding D[symmetric] l .
  finally show ?case unfolding m .
qed



lemma pack_all_ok:
  assumes "list_all wf_entry es" and "pl = 4 \<or> pl = 5"
  shows "\<exists>ps. pack_all pl es = Inr ps"
  using assms
proof (induction es)
  case Nil
  then show ?case by simp
next
  case (Cons e es)
  obtain p v where e: "e = (p, v)" by (cases e)
  from Cons.prems have wf: "wf_entry (p, v)" by (simp add: e)
  from Cons obtain rest where r: "pack_all pl es = Inr rest" by auto
  from pack_4[OF wf] pack_5[OF wf] Cons.prems(2) obtain s where "pack p v pl = Inr s"
    by auto
  then show ?case by (simp add: e r)
qed




lemma map_of_rev_distinct:
  "distinct (map fst xs) \<Longrightarrow> map_of (rev xs) = map_of xs"
proof (induction xs)
  case Nil
  then show ?case by simp
next
  case (Cons x xs)
  obtain k v where x: "x = (k, v)" by (cases x)
  from Cons.prems have nk: "map_of xs k = None" and d: "distinct (map fst xs)"
    by (simp_all add: x map_of_eq_None_iff)
  show ?case
    using nk by (auto simp: x Cons.IH[OF d] map_add_def fun_eq_iff split: option.splits)
qed

lemma parse_unfold:
  assumes "getitem d 1 = Inr cnt"
    and "parse_loop d (if bt = 0xb5 then 4 else 5) (nat cnt) 2 Map.empty = (m, exc)"
    and "exc = None \<or> exc = Some IndexError"
  shows "parse (NewProtocolMessageBody d bt) = Inr m"
  using assms by (auto simp: parse_def NewProtocolMessageBody_def)

text \<open>
  Claim C5. For every marker byte \<open>bt\<close> and every list of at most 255 entries with
  distinct parameter ids below \<open>2^16\<close> and non-empty values of at most 255 bytes, the
  body \<open>[bt, count]\<close> followed by \<open>pack\<close> of every entry (pack length 4 for marker
  \<open>0xB5\<close>, 5 otherwise) is built without error, and \<open>parse\<close> of that body with the
  same marker returns exactly the mapping from each parameter id to its value.
\<close>

theorem new_protocol_roundtrip:
  assumes bt: "fits_byte bt" and dist: "distinct (map fst es)"
    and wf: "list_all wf_entry es" and n: "length es \<le> 255"
  shows "\<exists>b. build_body bt es = Inr b
           \<and> parse (NewProtocolMessageBody b bt) = Inr (map_of es)"
proof -
  let ?pl = "if bt = 0xb5 then 4 else 5 :: int"
  have pl: "?pl = 4 \<or> ?pl = 5" by simp
  from pack_all_ok[OF wf pl] obtain ps where ps: "pack_all ?pl es = Inr ps" by blast
  have fn: "fits_byte (len es)" using n by (simp add: fits_byte_def len_def)
  define a :: byte where "a = word_of_int bt"
  define c :: byte where "c = word_of_int (len es)"
  have uc: "uint c = len es" unfolding c_def by (simp only: uint_byte[OF fn])
  have bb: "build_body bt es = Inr ([a, c] @ ps @ [])"
    using bt fn ps by (simp add: build_body_def bytearray_def a_def c_def)
  have g: "getitem ([a, c] @ ps @ []) 1 = Inr (len es)"
    using uc by (simp add: getitem_def len_def)
  have "parse_loop ([a, c] @ ps @ []) ?pl (length es + 0) (len [a, c]) Map.empty
        = parse_loop ([a, c] @ ps @ []) ?pl 0 (len [a, c] + len ps)
            (Map.empty ++ map_of (rev es))"
    by (rule loop_entries[OF wf ps pl])
  then have lp: "parse_loop ([a, c] @ ps @ []) ?pl (nat (len es)) 2 Map.empty
        = (map_of es, None)"
    by (simp add: len_def map_of_rev_distinct[OF dist])
  have "parse (NewProtocolMessageBody ([a, c] @ ps @ []) bt) = Inr (map_of es)"
    by (rule parse_unfold[OF g lp]) simp
  with bb show ?thesis by blast
qed

theorem new_protocol_roundtrip_witness:
  "fits_byte 0xb5
   \<and> distinct (map fst [(0x0102 :: int, [9, 9]), (0x0010, [8 :: byte])])
   \<and> list_all wf_entry [(0x0102, [9, 9]), (0x0010, [8])]
   \<and> length [(0x0102 :: int, [9, 9]), (0x0010, [8 :: byte])] \<le> 255
   \<and> build_body 0xb5 [(0x0102, [9, 9]), (0x0010, [8])]
       = Inr [0xb5, 2, 0x02, 0x01, 2, 9, 9, 0x10, 0x00, 1, 8]
   \<and> parse (NewProtocolMessageBody [0xb5, 2, 0x02, 0x01, 2, 9, 9, 0x10, 0x00, 1, 8] 0xb5)
       = Inr (map_of [(0x0102, [9, 9]), (0x0010, [8])])"
proof -
  let ?es = "[(0x0102, [9, 9]), (0x0010, [8])] :: (int \<times> bytes) list"
  have h: "fits_byte 0xb5" "distinct (map fst ?es)" "list_all wf_entry ?es"
    "length ?es \<le> 255"
    by (simp_all add: wf_entry_def)
  have b: "build_body 0xb5 ?es = Inr [0xb5, 2, 0x02, 0x01, 2, 9, 9, 0x10, 0x00, 1, 8]"
    by (simp add: build_body_def bytearray_def pack_def len_def fits_byte_def Let_def
        and_255 drop_bit_eq_div)
  from new_protocol_roundtrip[OF h] b h show ?thesis by auto
qed

subsection \<open>A body cut inside the value of an entry\<close>










end
